theory Spec2Isabelle
  imports Complex_Main "HOL-Library.List_Lexorder"
begin

section \<open>Text\<close>

text \<open>
  A Python \<open>str\<close> is a sequence of Unicode code points; it is modelled as a list of
  natural numbers, so that Cyrillic text is one element per letter, as \<open>len\<close> counts it.
  \<open>ascii\<close> embeds an ASCII literal.
\<close>

type_synonym str = "nat list"

definition ascii :: "string \<Rightarrow> str" where
  "ascii s = map of_char s"

text \<open>
  \<open>str.isspace\<close> of a single code point: the white-space set of CPython
  (bidirectional classes WS, B, S and category Zs).
\<close>

definition py_isspace :: "nat \<Rightarrow> bool" where
  "py_isspace c \<longleftrightarrow>
     (9 \<le> c \<and> c \<le> 13) \<or> (28 \<le> c \<and> c \<le> 32) \<or> c = 133 \<or> c = 160 \<or> c = 5760 \<or>
     (8192 \<le> c \<and> c \<le> 8202) \<or> c = 8232 \<or> c = 8233 \<or> c = 8239 \<or> c = 8287 \<or> c = 12288"

text \<open>\<open>str.strip()\<close> without argument: leading and trailing white space removed.\<close>

definition py_lstrip :: "str \<Rightarrow> str" where
  "py_lstrip s = dropWhile py_isspace s"

definition py_rstrip :: "str \<Rightarrow> str" where
  "py_rstrip s = rev (dropWhile py_isspace (rev s))"

definition py_strip :: "str \<Rightarrow> str" where
  "py_strip s = py_rstrip (py_lstrip s)"

text \<open>
  \<open>str.lower()\<close> follows the case tables of the Unicode database, which are not code
  of this repository, and may change the length of a string. It is a parameter of every
  function that calls it: \<open>lower\<close>, from strings to strings.
\<close>

text \<open>
  Decimal digits (Unicode 14, category Nd) come in blocks of ten consecutive code
  points, 0 to 9; \<open>decimal_zeros\<close> lists the zero of each block. These are the
  characters \<open>str.isdecimal\<close>, the pattern \<open>\d\<close> and \<open>int()\<close> take as digits.
\<close>

definition decimal_zeros :: "nat list" where
  "decimal_zeros =
    [48, 1632, 1776, 1984, 2406, 2534, 2662, 2790, 2918, 3046, 3174, 3302, 3430, 3558,
     3664, 3792, 3872, 4160, 4240, 6112, 6160, 6470, 6608, 6784, 6800, 6992, 7088, 7232,
     7248, 42528, 43216, 43264, 43472, 43504, 43600, 44016, 65296, 66720, 68912, 69734,
     69872, 69942, 70096, 70384, 70736, 70864, 71248, 71360, 71472, 71904, 72016, 72784,
     73040, 73120, 92768, 92864, 93008, 120782, 120792, 120802, 120812, 120822, 123200,
     123632, 125264, 130032]"

definition decimal_value :: "nat \<Rightarrow> nat option" where
  "decimal_value c =
     (case filter (\<lambda>z. z \<le> c \<and> c < z + 10) decimal_zeros of
        [] \<Rightarrow> None
      | z # _ \<Rightarrow> Some (c - z))"

definition py_isdecimal :: "nat \<Rightarrow> bool" where
  "py_isdecimal c \<longleftrightarrow> decimal_value c \<noteq> None"

text \<open>
  \<open>str.isdigit()\<close>: a non-empty string of characters with the Unicode property Digit
  or Decimal (superscripts and circled digits besides the decimal ones), given as ranges
  of code points.
\<close>

definition digit_ranges :: "(nat \<times> nat) list" where
  "digit_ranges =
    [(48, 57), (178, 179), (185, 185), (1632, 1641), (1776, 1785), (1984, 1993),
     (2406, 2415), (2534, 2543), (2662, 2671), (2790, 2799), (2918, 2927), (3046, 3055),
     (3174, 3183), (3302, 3311), (3430, 3439), (3558, 3567), (3664, 3673), (3792, 3801),
     (3872, 3881), (4160, 4169), (4240, 4249), (4969, 4977), (6112, 6121), (6160, 6169),
     (6470, 6479), (6608, 6618), (6784, 6793), (6800, 6809), (6992, 7001), (7088, 7097),
     (7232, 7241), (7248, 7257), (8304, 8304), (8308, 8313), (8320, 8329), (9312, 9320),
     (9332, 9340), (9352, 9360), (9450, 9450), (9461, 9469), (9471, 9471), (10102, 10110),
     (10112, 10120), (10122, 10130), (42528, 42537), (43216, 43225), (43264, 43273),
     (43472, 43481), (43504, 43513), (43600, 43609), (44016, 44025), (65296, 65305),
     (66720, 66729), (68160, 68163), (68912, 68921), (69216, 69224), (69714, 69722),
     (69734, 69743), (69872, 69881), (69942, 69951), (70096, 70105), (70384, 70393),
     (70736, 70745), (70864, 70873), (71248, 71257), (71360, 71369), (71472, 71481),
     (71904, 71913), (72016, 72025), (72784, 72793), (73040, 73049), (73120, 73129),
     (92768, 92777), (92864, 92873), (93008, 93017), (120782, 120831), (123200, 123209),
     (123632, 123641), (125264, 125273), (127232, 127242), (130032, 130041)]"

definition py_isdigit :: "str \<Rightarrow> bool" where
  "py_isdigit s \<longleftrightarrow>
     s \<noteq> [] \<and> list_all (\<lambda>c. list_ex (\<lambda>(a, b). a \<le> c \<and> c \<le> b) digit_ranges) s"

section \<open>Route keys (src/utils/database.py)\<close>

text \<open>
  \<open>normalize_route_key\<close>: each point is stripped and then lower-cased; a missing or
  empty point contributes the empty string. 58 is the colon.
\<close>

definition normalize_route_key :: "(str \<Rightarrow> str) \<Rightarrow> str option \<Rightarrow> str option \<Rightarrow> str" where
  "normalize_route_key lower point_a point_b =
     (let a = (case point_a of None \<Rightarrow> [] | Some s \<Rightarrow> if s = [] then [] else lower (py_strip s));
          b = (case point_b of None \<Rightarrow> [] | Some s \<Rightarrow> if s = [] then [] else lower (py_strip s))
      in a @ [58] @ b)"

section \<open>The store (src/utils/database.py)\<close>

text \<open>
  Each table is the list of its rows in insertion order; a query without \<open>order_by\<close>
  reads them in that order and \<open>.first()\<close> takes the head. A nullable column is an
  \<open>option\<close>. \<open>datetime\<close> values are microseconds on the UTC time line, the
  resolution of \<open>datetime.utcnow()\<close>, which every operation that reads the clock
  takes as its argument \<open>now\<close>. Columns that no modelled operation reads are left
  out. \<open>engine\<close> says whether \<open>DATABASE_URL\<close> was set, that is whether
  \<open>get_session()\<close> returns a session; statements on a session are taken to
  execute without raising.
\<close>

record OrderGroupLink =
  ogl_id :: int
  ogl_route_key :: str
  ogl_user_id :: int
  ogl_group_id :: "int option"
  ogl_group_title :: "str option"
  ogl_source_link :: "str option"
  ogl_message_id :: "int option"
  ogl_author_id :: "int option"
  ogl_author_username :: "str option"
  ogl_author_first_name :: "str option"
  ogl_created_at :: int

record OrderNotification =
  on_id :: int
  on_order_id :: int
  on_user_id :: int
  on_sent_at :: "int option"
  on_message_id :: "int option"
  on_route_key :: "str option"

record User =
  u_id :: int
  u_telegram_id :: int
  u_username :: "str option"
  u_first_name :: "str option"
  u_latitude :: "real option"
  u_longitude :: "real option"
  u_radius_km :: "int option"
  u_min_price :: "int option"
  u_active :: "bool option"
  u_is_admin :: "bool option"

record UserGroup =
  ug_user_id :: int
  ug_group_id :: int
  ug_is_active :: "bool option"

record DriverSettings =
  ds_user_id :: int
  ds_quiet_hours_enabled :: "bool option"
  ds_quiet_hours_start :: "str option"
  ds_quiet_hours_end :: "str option"
  ds_busy_until :: "int option"

record Blacklist =
  bl_user_id :: int
  bl_block_type :: str
  bl_blocked_id :: "int option"
  bl_blocked_username :: "str option"
  bl_blocked_name :: "str option"

record database =
  engine :: bool
  users :: "User list"
  user_groups :: "UserGroup list"
  order_notifications :: "OrderNotification list"
  order_group_links :: "OrderGroupLink list"
  driver_settings :: "DriverSettings list"
  blacklist :: "Blacklist list"

text \<open>The next value of a table's primary-key sequence.\<close>

definition next_id :: "int list \<Rightarrow> int" where
  "next_id ids = fold max ids 0 + 1"

subsection \<open>Group links\<close>

text \<open>The keyword arguments of \<open>add_order_group_link\<close>.\<close>

record link_args =
  la_route_key :: str
  la_user_id :: int
  la_group_id :: "int option"
  la_group_title :: "str option"
  la_source_link :: "str option"
  la_message_id :: "int option"
  la_author_id :: "int option"
  la_author_username :: "str option"
  la_author_first_name :: "str option"

definition same_link :: "link_args \<Rightarrow> OrderGroupLink \<Rightarrow> bool" where
  "same_link a l \<longleftrightarrow>
     ogl_route_key l = la_route_key a \<and> ogl_user_id l = la_user_id a \<and>
     ogl_source_link l = la_source_link a"

definition add_order_group_link ::
  "database \<Rightarrow> int \<Rightarrow> link_args \<Rightarrow> database \<times> OrderGroupLink option" where
  "add_order_group_link db now a =
     (if \<not> engine db then (db, None)
      else case filter (same_link a) (order_group_links db) of
        existing # _ \<Rightarrow> (db, Some existing)
      | [] \<Rightarrow>
          let link = \<lparr>ogl_id = next_id (map ogl_id (order_group_links db)),
                        ogl_route_key = la_route_key a,
                        ogl_user_id = la_user_id a,
                        ogl_group_id = la_group_id a,
                        ogl_group_title = la_group_title a,
                        ogl_source_link = la_source_link a,
                        ogl_message_id = la_message_id a,
                        ogl_author_id = la_author_id a,
                        ogl_author_username = la_author_username a,
                        ogl_author_first_name = la_author_first_name a,
                        ogl_created_at = now\<rparr>
          in (db\<lparr>order_group_links := order_group_links db @ [link]\<rparr>, Some link))"

text \<open>
  \<open>add_order_group_link\<close> called once for each clock reading of \<open>nows\<close>, with
  the same arguments: the store after the last call and what each call returned.
\<close>

fun add_order_group_link_calls ::
  "database \<Rightarrow> int list \<Rightarrow> link_args \<Rightarrow> database \<times> OrderGroupLink option list" where
  "add_order_group_link_calls db [] a = (db, [])"
| "add_order_group_link_calls db (now # nows) a =
     (case add_order_group_link db now a of
        (db1, r) \<Rightarrow>
          (case add_order_group_link_calls db1 nows a of (db2, rs) \<Rightarrow> (db2, r # rs)))"

section \<open>Python values\<close>

text \<open>
  Truth value of an optional number (\<open>None\<close> and zero are false) and the \<open>x or d\<close>
  idiom built on it.
\<close>

definition truthy :: "'a::zero option \<Rightarrow> bool" where
  "truthy x = (case x of None \<Rightarrow> False | Some v \<Rightarrow> v \<noteq> 0)"

definition or_else :: "'a::zero option \<Rightarrow> 'a \<Rightarrow> 'a" where
  "or_else x d = (case x of None \<Rightarrow> d | Some v \<Rightarrow> if v = 0 then d else v)"

text \<open>The same for optional strings: \<open>None\<close> and the empty string are false.\<close>

definition truthy_str :: "str option \<Rightarrow> bool" where
  "truthy_str x = (case x of None \<Rightarrow> False | Some s \<Rightarrow> s \<noteq> [])"

definition or_else_str :: "str option \<Rightarrow> str option \<Rightarrow> str option" where
  "or_else_str x d = (if truthy_str x then x else d)"

datatype py_error = ValueError | TypeError | CallbackError

text \<open>
  \<open>int(s)\<close> on a string: white space around, an optional sign, then decimal digits with
  single underscores allowed between digits. \<open>None\<close> stands for \<open>ValueError\<close>.
\<close>

fun parse_digits :: "str \<Rightarrow> bool \<Rightarrow> nat \<Rightarrow> nat option" where
  "parse_digits [] prev acc = (if prev then Some acc else None)"
| "parse_digits (c # cs) prev acc =
     (case decimal_value c of
        Some d \<Rightarrow> parse_digits cs True (acc * 10 + d)
      | None \<Rightarrow> if c = 95 \<and> prev then parse_digits cs False acc else None)"

definition py_int :: "str \<Rightarrow> int option" where
  "py_int s =
     (case py_strip s of
        [] \<Rightarrow> None
      | c # cs \<Rightarrow>
          if c = 45 then map_option (\<lambda>n. - int n) (parse_digits cs False 0)
          else if c = 43 then map_option int (parse_digits cs False 0)
          else map_option int (parse_digits (c # cs) False 0))"

section \<open>Orders (src/parser/order_parser.py)\<close>

record ParsedOrder =
  point_a :: str
  point_b :: str
  price :: "int option"
  original_text :: str
  source_group :: str
  source_link :: str
  region :: "str option"
  point_a_coords :: "(real \<times> real) option"
  point_b_coords :: "(real \<times> real) option"
  timestamp :: str
  group_title :: "str option"
  source_group_id :: "int option"
  message_id :: "int option"
  author_id :: "int option"
  author_username :: "str option"
  author_first_name :: "str option"

section \<open>Driver matching (src/matcher.py, src/utils/geo.py)\<close>

subsection \<open>Queries on drivers\<close>

definition get_active_users :: "database \<Rightarrow> User list" where
  "get_active_users db =
     (if \<not> engine db then []
      else filter (\<lambda>u. u_active u = Some True \<and> u_latitude u \<noteq> None) (users db))"

text \<open>
  The join of users with their group rows, for the three spellings of the group id. The
  query returns user entities, each once.
\<close>

definition get_users_subscribed_to_group :: "database \<Rightarrow> int \<Rightarrow> User list" where
  "get_users_subscribed_to_group db group_id =
     (if \<not> engine db then []
      else filter
        (\<lambda>u. list_ex (\<lambda>g. ug_user_id g = u_id u \<and>
                         (ug_group_id g = group_id \<or> ug_group_id g = \<bar>group_id\<bar> \<or>
                          ug_group_id g = - \<bar>group_id\<bar>) \<and>
                         ug_is_active g = Some True) (user_groups db) \<and>
             u_active u = Some True \<and> u_latitude u \<noteq> None)
        (users db))"

definition get_admin_users :: "database \<Rightarrow> User list" where
  "get_admin_users db =
     (if \<not> engine db then [] else filter (\<lambda>u. u_is_admin u = Some True) (users db))"

subsection \<open>Distance\<close>

text \<open>
  \<open>calculate_distance\<close> is \<open>geodesic(coord1, coord2).kilometers\<close> of the geopy
  library and \<open>round(x, 1)\<close> is the interpreter's; neither is code of this repository.
  Both are parameters of the model: \<open>geodesic_km\<close> and \<open>round1\<close>. Kilometres and
  coordinates are real numbers.
\<close>

type_synonym coords = "real \<times> real"

definition calculate_distance :: "(coords \<Rightarrow> coords \<Rightarrow> real) \<Rightarrow> coords \<Rightarrow> coords \<Rightarrow> real" where
  "calculate_distance geodesic_km coord1 coord2 = geodesic_km coord1 coord2"

definition is_within_radius ::
  "(coords \<Rightarrow> coords \<Rightarrow> real) \<Rightarrow> coords \<Rightarrow> coords \<Rightarrow> real \<Rightarrow> bool" where
  "is_within_radius geodesic_km driver_coords order_coords radius_km =
     (let distance = calculate_distance geodesic_km driver_coords order_coords
      in distance \<le> radius_km)"

subsection \<open>find_matching_drivers\<close>

record driver_info =
  di_user_id :: int
  di_telegram_id :: int
  di_db_user_id :: int
  di_username :: "str option"
  di_first_name :: "str option"
  di_latitude :: "real option"
  di_longitude :: "real option"
  di_radius_km :: "int option"
  di_min_price :: "int option"
  distance_to_order :: real

text \<open>
  What one pass of the loop over the candidates does with a driver: the three
  \<open>continue\<close> statements, in the order of the source, or the append to \<open>matching\<close>.
  The condition \<open>order.price and min_price > 0 and order.price < min_price\<close> reads
  \<open>order.price\<close> as a truth value first, so a price of \<open>None\<close> or 0 ends it.
\<close>

datatype verdict = No_coordinates | Not_in_radius | Filtered_by_price | Matches driver_info

definition consider_driver ::
  "(coords \<Rightarrow> coords \<Rightarrow> real) \<Rightarrow> (real \<Rightarrow> real) \<Rightarrow> coords \<Rightarrow> ParsedOrder \<Rightarrow> User \<Rightarrow> verdict" where
  "consider_driver geodesic_km round1 order_coords order driver =
     (if \<not> truthy (u_latitude driver) \<or> \<not> truthy (u_longitude driver) then No_coordinates
      else
        let driver_coords = (or_else (u_latitude driver) 0, or_else (u_longitude driver) 0);
            radius = or_else (u_radius_km driver) 50;
            min_price = or_else (u_min_price driver) 0;
            distance = calculate_distance geodesic_km driver_coords order_coords;
            in_radius = is_within_radius geodesic_km driver_coords order_coords (real_of_int radius)
        in if \<not> in_radius then Not_in_radius
           else if (case price order of
                      None \<Rightarrow> False
                    | Some p \<Rightarrow> p \<noteq> 0 \<and> min_price > 0 \<and> p < min_price)
             then Filtered_by_price
           else Matches
             \<lparr>di_user_id = u_telegram_id driver,
              di_telegram_id = u_telegram_id driver,
              di_db_user_id = u_id driver,
              di_username = u_username driver,
              di_first_name = u_first_name driver,
              di_latitude = u_latitude driver,
              di_longitude = u_longitude driver,
              di_radius_km = u_radius_km driver,
              di_min_price = u_min_price driver,
              distance_to_order = round1 distance\<rparr>)"

fun matching_of :: "verdict list \<Rightarrow> driver_info list" where
  "matching_of [] = []"
| "matching_of (Matches d # vs) = d # matching_of vs"
| "matching_of (_ # vs) = matching_of vs"

definition candidate_drivers :: "database \<Rightarrow> ParsedOrder \<Rightarrow> bool \<Rightarrow> User list" where
  "candidate_drivers db order filter_by_group =
     (if filter_by_group \<and> truthy (source_group_id order)
        then get_users_subscribed_to_group db (or_else (source_group_id order) 0)
      else if filter_by_group \<and> source_group order \<noteq> []
        then (case py_int (source_group order) of
                Some group_id \<Rightarrow> get_users_subscribed_to_group db group_id
              | None \<Rightarrow> get_active_users db)
      else get_active_users db)"

text \<open>\<open>list.sort(key=...)\<close> is stable, as \<open>sort_key\<close> is.\<close>

definition find_matching_drivers ::
  "(coords \<Rightarrow> coords \<Rightarrow> real) \<Rightarrow> (real \<Rightarrow> real) \<Rightarrow> database \<Rightarrow> ParsedOrder \<Rightarrow> bool \<Rightarrow>
   driver_info list" where
  "find_matching_drivers geodesic_km round1 db order filter_by_group =
     (case point_a_coords order of
        None \<Rightarrow> []
      | Some order_coords \<Rightarrow>
          let drivers = candidate_drivers db order filter_by_group;
              matching = matching_of
                (map (consider_driver geodesic_km round1 order_coords order) drivers)
          in sort_key distance_to_order matching)"

subsection \<open>check_driver_matches_order\<close>

definition check_driver_matches_order ::
  "(coords \<Rightarrow> coords \<Rightarrow> real) \<Rightarrow> (real \<Rightarrow> real) \<Rightarrow> User \<Rightarrow> ParsedOrder \<Rightarrow> bool \<times> real option" where
  "check_driver_matches_order geodesic_km round1 driver order =
     (case point_a_coords order of
        None \<Rightarrow> (False, None)
      | Some order_coords \<Rightarrow>
          if \<not> truthy (u_latitude driver) \<or> \<not> truthy (u_longitude driver) then (False, None)
          else
            let driver_coords = (or_else (u_latitude driver) 0, or_else (u_longitude driver) 0);
                radius = or_else (u_radius_km driver) 50;
                min_price = or_else (u_min_price driver) 0
            in if \<not> is_within_radius geodesic_km driver_coords order_coords (real_of_int radius)
                 then (False, None)
               else if (case price order of
                          None \<Rightarrow> False
                        | Some p \<Rightarrow> p \<noteq> 0 \<and> min_price > 0 \<and> p < min_price)
                 then (False, None)
               else (True, Some (round1 (calculate_distance geodesic_km driver_coords order_coords))))"

section \<open>Suppression checks (src/utils/database.py)\<close>

text \<open>
  \<open>is_user_in_quiet_hours\<close> compares three \<open>HH:MM\<close> strings, in the order of their
  code points: the start and the end of the window from the settings row, and
  \<open>current_time\<close>, the Moscow wall-clock time the function formats. A window whose start
  is after its end wraps past midnight. Comparing with a bound that is \<open>None\<close> raises
  \<open>TypeError\<close>.
\<close>

definition is_user_in_quiet_hours :: "database \<Rightarrow> str \<Rightarrow> int \<Rightarrow> py_error + bool" where
  "is_user_in_quiet_hours db current_time user_id =
     (if \<not> engine db then Inr False
      else case filter (\<lambda>s. ds_user_id s = user_id) (driver_settings db) of
        [] \<Rightarrow> Inr False
      | settings # _ \<Rightarrow>
          if ds_quiet_hours_enabled settings \<noteq> Some True then Inr False
          else (case (ds_quiet_hours_start settings, ds_quiet_hours_end settings) of
                  (Some start, Some finish) \<Rightarrow>
                    Inr (if start \<le> finish then start \<le> current_time \<and> current_time \<le> finish
                         else current_time \<ge> start \<or> current_time \<le> finish)
                | _ \<Rightarrow> Inl TypeError))"

text \<open>The first row that satisfies \<open>P\<close>, changed by \<open>f\<close>: an update of the object \<open>.first()\<close> returned.\<close>

fun update_first :: "('a \<Rightarrow> bool) \<Rightarrow> ('a \<Rightarrow> 'a) \<Rightarrow> 'a list \<Rightarrow> 'a list" where
  "update_first P f [] = []"
| "update_first P f (x # xs) = (if P x then f x # xs else x # update_first P f xs)"

text \<open>\<open>is_user_busy\<close> clears a \<open>busy_until\<close> that has passed and commits.\<close>

definition is_user_busy :: "database \<Rightarrow> int \<Rightarrow> int \<Rightarrow> database \<times> bool" where
  "is_user_busy db now user_id =
     (if \<not> engine db then (db, False)
      else case filter (\<lambda>s. ds_user_id s = user_id) (driver_settings db) of
        [] \<Rightarrow> (db, False)
      | settings # _ \<Rightarrow>
          (case ds_busy_until settings of
             None \<Rightarrow> (db, False)
           | Some busy_until \<Rightarrow>
               if busy_until > now then (db, True)
               else (db\<lparr>driver_settings :=
                          update_first (\<lambda>s. ds_user_id s = user_id) (\<lambda>s. s\<lparr>ds_busy_until := None\<rparr>)
                            (driver_settings db)\<rparr>, False)))"

definition is_blacklisted :: "database \<Rightarrow> int \<Rightarrow> int option \<Rightarrow> int option \<Rightarrow> bool" where
  "is_blacklisted db user_id author_id' group_id =
     (if \<not> engine db then False
      else
        let query = filter (\<lambda>b. bl_user_id b = user_id) (blacklist db)
        in if truthy author_id' \<and>
              filter (\<lambda>b. bl_block_type b = ascii ''author'' \<and> bl_blocked_id b = author_id') query \<noteq> []
             then True
           else if truthy group_id \<and>
              filter (\<lambda>b. bl_block_type b = ascii ''group'' \<and> bl_blocked_id b = group_id) query \<noteq> []
             then True
           else False)"

section \<open>Notification records (src/utils/database.py)\<close>

definition timedelta_hours :: "int \<Rightarrow> int" where
  "timedelta_hours hours = hours * 3600000000"

text \<open>A row passes the filter of \<open>get_existing_notification\<close>.\<close>

definition fresh_notification :: "int \<Rightarrow> int \<Rightarrow> str \<Rightarrow> OrderNotification \<Rightarrow> bool" where
  "fresh_notification cutoff user_id route_key n \<longleftrightarrow>
     on_user_id n = user_id \<and> on_route_key n = Some route_key \<and> on_message_id n \<noteq> None \<and>
     (case on_sent_at n of None \<Rightarrow> False | Some t \<Rightarrow> t \<ge> cutoff)"

text \<open>
  \<open>order_by(sent_at.desc()).first()\<close>: the row sent last; of several rows with that
  \<open>sent_at\<close>, the one stored first.
\<close>

fun latest :: "OrderNotification \<Rightarrow> OrderNotification list \<Rightarrow> OrderNotification" where
  "latest best [] = best"
| "latest best (n # ns) =
     latest (if or_else (on_sent_at n) 0 > or_else (on_sent_at best) 0 then n else best) ns"

definition get_existing_notification ::
  "database \<Rightarrow> int \<Rightarrow> int \<Rightarrow> str \<Rightarrow> int \<Rightarrow> OrderNotification option" where
  "get_existing_notification db now user_id route_key hours =
     (if \<not> engine db then None
      else
        let cutoff = now - timedelta_hours hours
        in case filter (fresh_notification cutoff user_id route_key) (order_notifications db) of
             [] \<Rightarrow> None
           | n # ns \<Rightarrow> Some (latest n ns))"

definition save_order_notification ::
  "database \<Rightarrow> int \<Rightarrow> int \<Rightarrow> int \<Rightarrow> int option \<Rightarrow> str option \<Rightarrow>
   database \<times> OrderNotification option" where
  "save_order_notification db now order_id user_id message_id' route_key =
     (if \<not> engine db then (db, None)
      else
        let notification = \<lparr>on_id = next_id (map on_id (order_notifications db)),
                              on_order_id = order_id,
                              on_user_id = user_id,
                              on_sent_at = Some now,
                              on_message_id = message_id',
                              on_route_key = route_key\<rparr>
        in (db\<lparr>order_notifications := order_notifications db @ [notification]\<rparr>,
            Some notification))"

definition get_order_group_links :: "database \<Rightarrow> str \<Rightarrow> int \<Rightarrow> OrderGroupLink list" where
  "get_order_group_links db route_key user_id =
     (if \<not> engine db then []
      else sort_key ogl_created_at
             (filter (\<lambda>l. ogl_route_key l = route_key \<and> ogl_user_id l = user_id)
                (order_group_links db)))"

section \<open>The notification coordinator (src/matcher.py)\<close>

text \<open>
  The two callbacks of \<open>OrderMatcher\<close> are injected; either may be missing. A call to
  one is recorded with its keyword arguments. A callback returns (\<open>Inr\<close>) or raises
  (\<open>Inl\<close>); the send callback returns the handle of the message it sent, or \<open>None\<close>.
\<close>

record edit_call =
  ec_driver_id :: int
  ec_message_id :: int
  ec_order_message :: str
  ec_order_link :: str
  ec_group_id :: "int option"
  ec_source_message_id :: "int option"

record send_call =
  sc_driver_id :: int
  sc_order_message :: str
  sc_order_link :: str
  sc_group_id :: "int option"
  sc_message_id :: "int option"

datatype bot_call = Edit_call edit_call | Send_call send_call

record OrderMatcher =
  bot_send_func :: "(send_call \<Rightarrow> py_error + int option) option"
  bot_edit_func :: "(edit_call \<Rightarrow> py_error + bool) option"

text \<open>
  The callbacks \<open>main.py\<close> installs are two methods of \<open>DriverBot\<close>
  (src/bot/driver_bot.py). The body of the \<open>try\<close> block of each, which builds the
  keyboard and calls the Telegram Bot API, is a parameter: \<open>send_message\<close> returns
  the \<open>message_id\<close> of the message sent, \<open>edit_message_text\<close> returns nothing,
  and either may raise. Both methods catch every exception.
\<close>

definition send_order_notification ::
  "(send_call \<Rightarrow> py_error + int) \<Rightarrow> send_call \<Rightarrow> py_error + int option" where
  "send_order_notification send_message c =
     (case send_message c of
        Inr sent_message_id \<Rightarrow> Inr (Some sent_message_id)
      | Inl e \<Rightarrow> Inr None)"

definition edit_order_notification ::
  "(edit_call \<Rightarrow> py_error + unit) \<Rightarrow> edit_call \<Rightarrow> py_error + bool" where
  "edit_order_notification edit_message_text c =
     (case edit_message_text c of
        Inr _ \<Rightarrow> Inr True
      | Inl e \<Rightarrow> Inr False)"

text \<open>The matcher as \<open>start\<close> of \<open>main.py\<close> builds it.\<close>

definition order_matcher ::
  "(send_call \<Rightarrow> py_error + int) \<Rightarrow> (edit_call \<Rightarrow> py_error + unit) \<Rightarrow> OrderMatcher" where
  "order_matcher send_message edit_message_text =
     \<lparr>bot_send_func = Some (send_order_notification send_message),
      bot_edit_func = Some (edit_order_notification edit_message_text)\<rparr>"

text \<open>
  What a call of \<open>_notify_driver\<close> leaves behind: the store, the order object (its author
  fields are assigned to), the calls made to the callbacks in order, and the exception
  that escaped, if one did.
\<close>

record outcome =
  out_db :: database
  out_order :: ParsedOrder
  out_calls :: "bot_call list"
  out_raised :: "py_error option"

text \<open>
  \<open>format_driver_notification\<close> renders the message text from the order, the distance,
  the group links and the store (favourite routes, service groups). The text plays no
  part in what is stored or which callback is called; the renderer is the parameter
  \<open>fmt\<close>.
\<close>

type_synonym formatter = "database \<Rightarrow> ParsedOrder \<Rightarrow> real \<Rightarrow> OrderGroupLink list \<Rightarrow> int \<Rightarrow> str"

text \<open>\<open>_get_author_from_links\<close>: the author of the first link that has an author id.\<close>

definition get_author_from_links ::
  "OrderGroupLink list \<Rightarrow> (int option \<times> str option \<times> str option) option" where
  "get_author_from_links group_links =
     (case filter (\<lambda>link. truthy (ogl_author_id link)) group_links of
        [] \<Rightarrow> None
      | link # _ \<Rightarrow> Some (ogl_author_id link, ogl_author_username link, ogl_author_first_name link))"

text \<open>The three assignments to the order's author fields.\<close>

definition adopt_author :: "OrderGroupLink list \<Rightarrow> ParsedOrder \<Rightarrow> ParsedOrder" where
  "adopt_author group_links order =
     (case get_author_from_links group_links of
        None \<Rightarrow> order
      | Some (a_id, a_username, a_first_name) \<Rightarrow>
          order\<lparr>author_id := (if truthy a_id then a_id else author_id order),
                author_username := or_else_str a_username (author_username order),
                author_first_name := or_else_str a_first_name (author_first_name order)\<rparr>)"

text \<open>The keyword arguments both blocks pass to \<open>add_order_group_link\<close>.\<close>

definition link_args_of :: "str \<Rightarrow> int \<Rightarrow> int option \<Rightarrow> ParsedOrder \<Rightarrow> link_args" where
  "link_args_of route_key db_user_id group_id order =
     \<lparr>la_route_key = route_key,
      la_user_id = db_user_id,
      la_group_id = group_id,
      la_group_title = or_else_str (group_title order) (Some [1043, 1088, 1091, 1087, 1087, 1072]),
      la_source_link = Some (source_link order),
      la_message_id = message_id order,
      la_author_id = author_id order,
      la_author_username = author_username order,
      la_author_first_name = author_first_name order\<rparr>"

definition admin_tag :: "bool \<Rightarrow> str \<Rightarrow> str" where
  "admin_tag is_admin_extra notification =
     (if is_admin_extra then ascii ''[ADMIN] '' @ notification else notification)"

text \<open>
  The block under \<open>if self.bot_send_func\<close>. \<open>calls\<close> are the callback calls made
  before it is entered. An exception of the callback is caught and logged.
\<close>

definition send_new ::
  "OrderMatcher \<Rightarrow> formatter \<Rightarrow> int \<Rightarrow> database \<Rightarrow> int \<Rightarrow> int \<Rightarrow> ParsedOrder \<Rightarrow> int \<Rightarrow> str \<Rightarrow>
   int option \<Rightarrow> real \<Rightarrow> bool \<Rightarrow> bot_call list \<Rightarrow> outcome" where
  "send_new self fmt now db driver_id db_user_id order order_db_id route_key group_id distance
     is_admin_extra calls =
     (case bot_send_func self of
        None \<Rightarrow> \<lparr>out_db = db, out_order = order, out_calls = calls, out_raised = None\<rparr>
      | Some send \<Rightarrow>
          let db1 = fst (add_order_group_link db now
                           (link_args_of route_key db_user_id group_id order));
              group_links = get_order_group_links db1 route_key db_user_id;
              order1 = adopt_author group_links order;
              notification = admin_tag is_admin_extra
                               (fmt db1 order1 distance group_links db_user_id);
              c = \<lparr>sc_driver_id = driver_id, sc_order_message = notification,
                   sc_order_link = source_link order1, sc_group_id = group_id,
                   sc_message_id = message_id order1\<rparr>
          in case send c of
               Inl e \<Rightarrow>
                 \<lparr>out_db = db1, out_order = order1, out_calls = calls @ [Send_call c],
                  out_raised = None\<rparr>
             | Inr sent_message_id \<Rightarrow>
                 \<lparr>out_db = (if truthy sent_message_id
                              then fst (save_order_notification db1 now order_db_id db_user_id
                                          sent_message_id (Some route_key))
                              else db1),
                  out_order = order1, out_calls = calls @ [Send_call c], out_raised = None\<rparr>)"

text \<open>\<open>existing and existing.message_id\<close>: the handle to edit, when there is one.\<close>

definition existing_handle :: "OrderNotification option \<Rightarrow> int option" where
  "existing_handle existing =
     (case existing of
        None \<Rightarrow> None
      | Some n \<Rightarrow> if truthy (on_message_id n) then on_message_id n else None)"

text \<open>
  The part of \<open>_notify_driver\<close> after the three suppression checks: the look-up of a
  notification of the last two hours, then the edit of that message or the send of a new
  one. An exception of the edit callback is caught, and the send block follows.
\<close>

definition edit_or_send ::
  "OrderMatcher \<Rightarrow> formatter \<Rightarrow> int \<Rightarrow> database \<Rightarrow> int \<Rightarrow> int \<Rightarrow> ParsedOrder \<Rightarrow> int \<Rightarrow> str \<Rightarrow>
   int option \<Rightarrow> real \<Rightarrow> bool \<Rightarrow> outcome" where
  "edit_or_send self fmt now db driver_id db_user_id order order_db_id route_key group_id distance
     is_admin_extra =
     (let existing = get_existing_notification db now db_user_id route_key 2;
          existing_links = get_order_group_links db route_key db_user_id;
          already_has_link =
            list_ex (\<lambda>link. ogl_source_link link = Some (source_link order)) existing_links
      in case (existing_handle existing, bot_edit_func self) of
           (Some handle, Some edit) \<Rightarrow>
             let db1 = (if \<not> already_has_link
                        then fst (add_order_group_link db now
                                    (link_args_of route_key db_user_id group_id order))
                        else db);
                 group_links = (if \<not> already_has_link
                                then get_order_group_links db1 route_key db_user_id
                                else existing_links);
                 order1 = adopt_author group_links order;
                 notification = admin_tag is_admin_extra
                                  (fmt db1 order1 distance group_links db_user_id);
                 c = \<lparr>ec_driver_id = driver_id, ec_message_id = handle,
                      ec_order_message = notification,
                      ec_order_link = source_link order1, ec_group_id = group_id,
                      ec_source_message_id = message_id order1\<rparr>
             in (case edit c of
                   Inr _ \<Rightarrow>
                     \<lparr>out_db = db1, out_order = order1, out_calls = [Edit_call c],
                      out_raised = None\<rparr>
                 | Inl e \<Rightarrow>
                     send_new self fmt now db1 driver_id db_user_id order1 order_db_id
                       route_key group_id distance is_admin_extra [Edit_call c])
         | _ \<Rightarrow>
             send_new self fmt now db driver_id db_user_id order order_db_id
               route_key group_id distance is_admin_extra [])"

text \<open>
  \<open>_notify_driver\<close>. \<open>now\<close> is the UTC clock and \<open>current_time\<close> the Moscow
  wall-clock time at the call; the clock is read once for the call.
\<close>

definition notify_driver ::
  "OrderMatcher \<Rightarrow> formatter \<Rightarrow> int \<Rightarrow> str \<Rightarrow> database \<Rightarrow> int \<Rightarrow> int \<Rightarrow> ParsedOrder \<Rightarrow> int \<Rightarrow>
   str \<Rightarrow> int option \<Rightarrow> real \<Rightarrow> bool \<Rightarrow> outcome" where
  "notify_driver self fmt now current_time db driver_id db_user_id order order_db_id route_key
     group_id distance is_admin_extra =
     (case is_user_in_quiet_hours db current_time db_user_id of
        Inl e \<Rightarrow> \<lparr>out_db = db, out_order = order, out_calls = [], out_raised = Some e\<rparr>
      | Inr quiet \<Rightarrow>
          if quiet then \<lparr>out_db = db, out_order = order, out_calls = [], out_raised = None\<rparr>
          else
            let busy = is_user_busy db now db_user_id;
                db0 = fst busy
            in if snd busy
                 then \<lparr>out_db = db0, out_order = order, out_calls = [], out_raised = None\<rparr>
               else if is_blacklisted db0 db_user_id (author_id order) group_id
                 then \<lparr>out_db = db0, out_order = order, out_calls = [], out_raised = None\<rparr>
               else edit_or_send self fmt now db0 driver_id db_user_id order order_db_id
                      route_key group_id distance is_admin_extra)"

section \<open>The fleet-wide dispatcher (src/parser/multi_user_monitor.py)\<close>

text \<open>\<open>str(i)\<close> of an integer: its decimal digits, with a minus sign when negative.\<close>

fun digits_of :: "nat \<Rightarrow> str" where
  "digits_of n = (if n < 10 then [48 + n] else digits_of (n div 10) @ [48 + n mod 10])"

declare digits_of.simps [simp del]

definition py_str_int :: "int \<Rightarrow> str" where
  "py_str_int i = (if i < 0 then 45 # digits_of (nat (- i)) else digits_of (nat i))"

text \<open>\<open>s.split('/')[-1]\<close>: what follows the last slash, the whole string when there is none.\<close>

definition last_segment :: "str \<Rightarrow> str" where
  "last_segment s = rev (takeWhile (\<lambda>c. c \<noteq> 47) (rev s))"

text \<open>
  The key \<open>f"{group_id}_{msg_id}"\<close> of an order: the numeric group id when it is set
  and not 0, else the \<open>source_group\<close> string; the message id when it is set and not 0,
  else the last segment of the source link, else \<open>unknown\<close>.
\<close>

definition order_key :: "ParsedOrder \<Rightarrow> str" where
  "order_key order =
     (let group_id = (if truthy (source_group_id order)
                      then py_str_int (or_else (source_group_id order) 0)
                      else source_group order);
          msg_id = (if truthy (message_id order) then py_str_int (or_else (message_id order) 0)
                    else if source_link order \<noteq> [] then last_segment (source_link order)
                    else ascii ''unknown'')
      in group_id @ [95] @ msg_id)"

text \<open>
  \<open>processed_orders\<close> is a Python \<open>set\<close> of keys. What the code reads of it is
  membership, its size and \<open>list(...)\<close>, the keys in the iteration order of the hash
  table; the model keeps that list. Where \<open>add\<close> places a new key among the others is
  decided by the hashes, which the interpreter draws per process: the placement is the
  parameter \<open>set_add\<close>, and \<open>set_add_ok\<close> says what every placement does.
  \<open>has_callback\<close> stands for \<open>on_order_callback\<close> being set.
\<close>

record MultiUserMonitor =
  has_callback :: bool
  processed_orders :: "str list"

definition set_add_ok :: "(str list \<Rightarrow> str \<Rightarrow> str list) \<Rightarrow> bool" where
  "set_add_ok set_add \<longleftrightarrow>
     (\<forall>keys k. distinct keys \<and> k \<notin> set keys \<longrightarrow>
        distinct (set_add keys k) \<and> set (set_add keys k) = insert k (set keys))"

text \<open>
  \<open>_handle_order\<close>: the monitor after the call, and the order passed to the callback,
  if it was called.
\<close>

definition handle_order ::
  "(str list \<Rightarrow> str \<Rightarrow> str list) \<Rightarrow> MultiUserMonitor \<Rightarrow> ParsedOrder \<Rightarrow>
   MultiUserMonitor \<times> ParsedOrder option" where
  "handle_order set_add self order =
     (if order_key order \<in> set (processed_orders self) then (self, None)
      else
        let added = set_add (processed_orders self) (order_key order);
            kept = (if length added > 10000
                    then (let old_orders = take 5000 added
                          in filter (\<lambda>k. k \<notin> set old_orders) added)
                    else added)
        in (self\<lparr>processed_orders := kept\<rparr>, if has_callback self then Some order else None))"

text \<open>The orders of a stream handled one after the other: the orders that were forwarded.\<close>

fun handle_orders ::
  "(str list \<Rightarrow> str \<Rightarrow> str list) \<Rightarrow> MultiUserMonitor \<Rightarrow> ParsedOrder list \<Rightarrow>
   MultiUserMonitor \<times> ParsedOrder list" where
  "handle_orders set_add self [] = (self, [])"
| "handle_orders set_add self (order # orders) =
     (case handle_order set_add self order of
        (self1, forwarded) \<Rightarrow>
          (case handle_orders set_add self1 orders of
             (self2, rest) \<Rightarrow>
               (self2, (case forwarded of None \<Rightarrow> rest | Some sent \<Rightarrow> sent # rest))))"

section \<open>City names (src/parser/order_parser.py, src/utils/geo.py)\<close>

text \<open>
  \<open>NOT_CITIES\<close>, the stoplist, word by word in the order of the source; each word is
  the list of its code points (the words are Russian, in lower case).
\<close>

definition NOT_CITIES :: "str list" where
  "NOT_CITIES =
    [[1084, 1080, 1085], [1095, 1072, 1089], [1095, 1077, 1083],
     [1095, 1077, 1083, 1086, 1074, 1077, 1082],
     [1095, 1077, 1083, 1086, 1074, 1077, 1082, 1072],
     [1087, 1072, 1089, 1089, 1072, 1078, 1080, 1088],
     [1087, 1072, 1089, 1089, 1072, 1078, 1080, 1088, 1072],
     [1087, 1072, 1089, 1089, 1072, 1078, 1080, 1088, 1086, 1074], [1088, 1091, 1073],
     [1088, 1091, 1073, 1083, 1100], [1088, 1091, 1073, 1083, 1077, 1081], [1090, 1099, 1089],
     [1084, 1077, 1089, 1090, 1086], [1084, 1077, 1089, 1090, 1072],
     [1073, 1072, 1075, 1072, 1078], [1073, 1072, 1075, 1072, 1078, 1072],
     [1089, 1077, 1075, 1086, 1076, 1085, 1103], [1079, 1072, 1074, 1090, 1088, 1072],
     [1074, 1095, 1077, 1088, 1072], [1091, 1090, 1088, 1086], [1076, 1077, 1085, 1100],
     [1074, 1077, 1095, 1077, 1088], [1085, 1086, 1095, 1100], [1091, 1090, 1088, 1086, 1084],
     [1074, 1077, 1095, 1077, 1088, 1086, 1084], [1076, 1085, 1105, 1084],
     [1085, 1086, 1095, 1100, 1102], [1103, 1085, 1074, 1072, 1088, 1100],
     [1092, 1077, 1074, 1088, 1072, 1083, 1100], [1084, 1072, 1088, 1090],
     [1072, 1087, 1088, 1077, 1083, 1100], [1084, 1072, 1081], [1080, 1102, 1085, 1100],
     [1080, 1102, 1083, 1100], [1072, 1074, 1075, 1091, 1089, 1090],
     [1089, 1077, 1085, 1090, 1103, 1073, 1088, 1100],
     [1086, 1082, 1090, 1103, 1073, 1088, 1100], [1085, 1086, 1103, 1073, 1088, 1100],
     [1076, 1077, 1082, 1072, 1073, 1088, 1100], [1087, 1085], [1074, 1090], [1089, 1088],
     [1095, 1090], [1087, 1090], [1089, 1073], [1074, 1089],
     [1087, 1086, 1085, 1077, 1076, 1077, 1083, 1100, 1085, 1080, 1082],
     [1074, 1090, 1086, 1088, 1085, 1080, 1082], [1089, 1088, 1077, 1076, 1072],
     [1095, 1077, 1090, 1074, 1077, 1088, 1075], [1087, 1103, 1090, 1085, 1080, 1094, 1072],
     [1089, 1091, 1073, 1073, 1086, 1090, 1072],
     [1074, 1086, 1089, 1082, 1088, 1077, 1089, 1077, 1085, 1100, 1077],
     [1089, 1088, 1086, 1095, 1085, 1086], [1089, 1074, 1086, 1073, 1086, 1076, 1085, 1086],
     [1079, 1072, 1085, 1103, 1090, 1086], [1079, 1072, 1082, 1088, 1099, 1090],
     [1079, 1072, 1082, 1088, 1099, 1090, 1086], [1086, 1090, 1082, 1088, 1099, 1090],
     [1086, 1090, 1082, 1088, 1099, 1090, 1086], [1090, 1072, 1082, 1089, 1080],
     [1074, 1086, 1076, 1080, 1090, 1077, 1083, 1100], [1084, 1072, 1096, 1080, 1085, 1072],
     [1072, 1074, 1090, 1086], [1072, 1074, 1090, 1086, 1084, 1086, 1073, 1080, 1083, 1100],
     [1084, 1077, 1078, 1076, 1091, 1075, 1086, 1088, 1086, 1076, 1085, 1077, 1077],
     [1084, 1077, 1078, 1075, 1086, 1088, 1086, 1076], [1094, 1077, 1085, 1072],
     [1089, 1090, 1086, 1080, 1084, 1086, 1089, 1090, 1100], [1090, 1086, 1088, 1075],
     [1076, 1086, 1075, 1086, 1074, 1086, 1088, 1085, 1072, 1103],
     [1076, 1086, 1075, 1086, 1074, 1086, 1088], [1082, 1086, 1084, 1092, 1086, 1088, 1090],
     [1101, 1082, 1086, 1085, 1086, 1084], [1073, 1080, 1079, 1085, 1077, 1089],
     [1087, 1088, 1077, 1084, 1080, 1091, 1084], [1076, 1077, 1090, 1089, 1082, 1086, 1077],
     [1082, 1088, 1077, 1089, 1083, 1086], [1078, 1080, 1074, 1086, 1090, 1085, 1086, 1077],
     [1087, 1080, 1090, 1086, 1084, 1077, 1094], [1079, 1072, 1082, 1072, 1079],
     [1079, 1072, 1103, 1074, 1082, 1072], [1073, 1088, 1086, 1085, 1100],
     [1073, 1088, 1086, 1085, 1080, 1088, 1086, 1074, 1072, 1085, 1080, 1077],
     [1090, 1091, 1076, 1072], [1086, 1073, 1088, 1072, 1090, 1085, 1086],
     [1087, 1086, 1087, 1091, 1090, 1085, 1086], [1085, 1072, 1083],
     [1085, 1072, 1083, 1080, 1095, 1085, 1099, 1077], [1082, 1072, 1088, 1090, 1072],
     [1087, 1077, 1088, 1077, 1074, 1086, 1076], [1086, 1087, 1083, 1072, 1090, 1072],
     [1090, 1088, 1072, 1085, 1089, 1092, 1077, 1088], [1085, 1089, 1092, 1077, 1088],
     [1089, 1092, 1077, 1088], [1075, 1088, 1072, 1085, 1080, 1094],
     [1073, 1077, 1079, 45, 1075, 1088, 1072, 1085, 1080, 1094],
     [1073, 1077, 1079, 1075, 1088, 1072, 1085, 1080, 1094],
     [1080, 1084, 1087, 1077, 1088, 1080, 1103], [1087, 1088, 1077, 1084, 1100, 1077, 1088],
     [1084, 1080, 1085, 1080, 1074, 1077, 1085], [1086, 1090, 1077, 1083, 1100],
     [1089, 1072, 1085, 1082, 1090], [1087, 1077, 1090, 1077, 1088, 1073, 1091, 1088, 1075],
     [1088, 1086, 1089, 1089, 1080, 1103], [1086, 1073, 1083, 1072, 1089, 1090, 1100],
     [1082, 1088, 1072, 1081], [1088, 1077, 1089, 1087, 1091, 1073, 1083, 1080, 1082, 1072],
     [1086, 1082, 1088, 1091, 1075], [1089, 1080, 1073, 1080, 1088, 1089, 1082, 1086, 1077],
     [1078, 1076], [1072, 1101, 1088, 1086, 1087, 1086, 1088, 1090],
     [1074, 1086, 1082, 1079, 1072, 1083], [1089, 1090, 1072, 1085, 1094, 1080, 1103],
     [1086, 1089, 1090, 1072, 1085, 1086, 1074, 1082, 1072],
     [1089, 1090, 1086, 1080, 1084, 1086, 1089, 1090, 1100], [1094, 1077, 1085, 1072],
     [1091, 1089, 1083, 1091, 1075, 1072], [1091, 1089, 1083, 1091, 1075, 1080],
     [1089, 1077, 1088, 1074, 1080, 1089]]"

text \<open>
  \<open>KNOWN_COORDINATES\<close>, the hand-made table of places, in the order of the source:
  lower-case name, latitude and longitude.
\<close>

definition KNOWN_COORDINATES :: "(str \<times> real \<times> real) list" where
  "KNOWN_COORDINATES =
    [([1089, 1086, 1083, 1085, 1077, 1095, 1085, 1072, 1103, 32, 1076, 1086, 1083, 1080, 1085, 1072], 550344 / 10000, 600878 / 10000),
     ([1079, 1072, 1074, 1100, 1103, 1083, 1080, 1093, 1072], 550267 / 10000, 599567 / 10000),
     ([1073, 1072, 1085, 1085, 1086, 1077], 535983 / 10000, 586317 / 10000),
     ([1072, 1073, 1079, 1072, 1082, 1086, 1074, 1086], 538000 / 10000, 586167 / 10000),
     ([1084, 1077, 1090, 1072, 1083, 1083, 1091, 1088, 1075, 45, 1084, 1072, 1075, 1085, 1080, 1090, 1086, 1075, 1086, 1088, 1089, 1082], 538033 / 10000, 586200 / 10000),
     ([1072, 1076, 1078, 1080, 1075, 1072, 1088, 1076, 1072, 1082], 549500 / 10000, 587833 / 10000),
     ([1075, 1086, 1088, 1072, 32, 1073, 1077, 1083, 1072, 1103], 576500 / 10000, 595667 / 10000),
     ([1075, 1086, 1088, 1072, 32, 1077, 1078, 1086, 1074, 1072, 1103], 573000 / 10000, 597000 / 10000),
     ([1091, 1082, 1090, 1091, 1089], 567833 / 10000, 606167 / 10000),
     ([1088, 1086, 1079, 1072, 32, 1093, 1091, 1090, 1086, 1088], 436572 / 10000, 402971 / 10000),
     ([1082, 1088, 1072, 1089, 1085, 1072, 1103, 32, 1087, 1086, 1083, 1103, 1085, 1072], 436833 / 10000, 402000 / 10000),
     ([1075, 1072, 1079, 1087, 1088, 1086, 1084], 436889 / 10000, 402667 / 10000),
     ([1075, 1086, 1088, 1082, 1080, 32, 1075, 1086, 1088, 1086, 1076], 436600 / 10000, 402700 / 10000),
     ([1072, 1083, 1100, 1087, 1080, 1082, 1072], 436850 / 10000, 402750 / 10000),
     ([1096, 1077, 1088, 1077, 1075, 1077, 1096], 529333 / 10000, 879833 / 10000),
     ([1075, 1083, 1072, 1076, 1077, 1085, 1100, 1082, 1072, 1103], 533000 / 10000, 915000 / 10000),
     ([1073, 1086, 1073, 1088, 1086, 1074, 1099, 1081, 32, 1083, 1086, 1075], 559667 / 10000, 927667 / 10000),
     ([1084, 1072, 1085, 1078, 1077, 1088, 1086, 1082], 518167 / 10000, 857833 / 10000),
     ([1073, 1077, 1083, 1086, 1082, 1091, 1088, 1080, 1093, 1072], 519833 / 10000, 849833 / 10000),
     ([1072, 1088, 1093, 1099, 1079], 435500 / 10000, 412833 / 10000),
     ([1090, 1077, 1073, 1077, 1088, 1076, 1072], 434500 / 10000, 417333 / 10000),
     ([1076, 1086, 1084, 1073, 1072, 1081], 432903 / 10000, 416506 / 10000),
     ([1101, 1083, 1100, 1073, 1088, 1091, 1089], 434167 / 10000, 425000 / 10000),
     ([1072, 1101, 1088, 1086, 1087, 1086, 1088, 1090, 32, 1095, 1077, 1083, 1103, 1073, 1080, 1085, 1089, 1082, 1072], 553000 / 10000, 615000 / 10000),
     ([1073, 1072, 1083, 1072, 1085, 1076, 1080, 1085, 1086], 553000 / 10000, 615000 / 10000),
     ([1082, 1086, 1083, 1100, 1094, 1086, 1074, 1086], 567500 / 10000, 608000 / 10000),
     ([1072, 1101, 1088, 1086, 1087, 1086, 1088, 1090, 32, 1077, 1082, 1072, 1090, 1077, 1088, 1080, 1085, 1073, 1091, 1088, 1075, 1072], 567500 / 10000, 608000 / 10000),
     ([1073, 1086, 1075, 1091, 1095, 1072, 1088], 499324 / 10000, 405545 / 10000),
     ([1088, 1086, 1089, 1089, 1086, 1096, 1100], 501983 / 10000, 395706 / 10000),
     ([1074, 1072, 1083, 1091, 1081, 1082, 1080], 502136 / 10000, 380989 / 10000),
     ([1096, 1077, 1073, 1077, 1082, 1080, 1085, 1086], 504067 / 10000, 368933 / 10000),
     ([1086, 1089, 1090, 1088, 1086, 1075, 1086, 1078, 1089, 1082], 508617 / 10000, 390600 / 10000),
     ([1084, 1072, 1088, 1082, 1086, 1074, 1082, 1072], 494511 / 10000, 396083 / 10000),
     ([1073, 1091, 1075, 1072, 1077, 1074, 1082, 1072], 497833 / 10000, 398500 / 10000),
     ([1101, 1085, 1077, 1084], 449231 / 10000, 389071 / 10000),
     ([1088, 1072, 1077, 1074, 1089, 1082, 1072, 1103], 448354 / 10000, 375493 / 10000),
     ([1073, 1077, 1089, 1089, 1082, 1086, 1088, 1073, 1085, 1072, 1103], 451333 / 10000, 410833 / 10000),
     ([1088, 1086, 1089, 1090, 1086, 1074, 32, 1085, 1072, 32, 1076, 1086, 1085, 1091], 472222 / 10000, 397198 / 10000),
     ([1086, 1073, 1085, 1080, 1085, 1089, 1082], 550968 / 10000, 366106 / 10000),
     ([1089, 1084, 1086, 1083, 1077, 1085, 1089, 1082], 547826 / 10000, 320453 / 10000),
     ([1084, 1080, 1085, 1089, 1082], 539006 / 10000, 275590 / 10000),
     ([1073, 1077, 1088, 1076, 1103, 1085, 1089, 1082], 467558 / 10000, 367989 / 10000),
     ([1084, 1077, 1083, 1080, 1090, 1086, 1087, 1086, 1083, 1100], 468489 / 10000, 353653 / 10000),
     ([1101, 1085, 1077, 1088, 1075, 1086, 1076, 1072, 1088], 474989 / 10000, 346567 / 10000),
     ([1090, 1086, 1082, 1084, 1072, 1082], 472553 / 10000, 357058 / 10000),
     ([1087, 1086, 1083, 1086, 1075, 1080], 474833 / 10000, 362500 / 10000),
     ([1093, 1077, 1088, 1089, 1086, 1085], 466354 / 10000, 326169 / 10000),
     ([1085, 1086, 1074, 1072, 1103, 32, 1082, 1072, 1093, 1086, 1074, 1082, 1072], 467556 / 10000, 333478 / 10000),
     ([1082, 1072, 1093, 1086, 1074, 1082, 1072], 468167 / 10000, 334833 / 10000),
     ([1075, 1077, 1085, 1080, 1095, 1077, 1089, 1082], 461750 / 10000, 348167 / 10000),
     ([1089, 1082, 1072, 1076, 1086, 1074, 1089, 1082], 461167 / 10000, 329167 / 10000),
     ([1089, 1072, 1085, 1072, 1090, 1086, 1088, 1080, 1081, 32, 1090, 1072, 1085, 1099, 1087], 559667 / 10000, 568333 / 10000),
     ([1090, 1072, 1085, 1099, 1087], 559667 / 10000, 568333 / 10000),
     ([1090, 1091, 1083, 1072], 541961 / 10000, 376182 / 10000),
     ([1082, 1091, 1088, 1089, 1082], 517373 / 10000, 361874 / 10000),
     ([1085, 1072, 1073, 1077, 1088, 1077, 1078, 1085, 1099, 1077, 32, 1095, 1077, 1083, 1085, 1099], 557167 / 10000, 524167 / 10000),
     ([1095, 1077, 1083, 1085, 1099], 557167 / 10000, 524167 / 10000),
     ([1085, 46, 1095, 1077, 1083, 1085, 1099], 557167 / 10000, 524167 / 10000),
     ([1085, 1095], 557167 / 10000, 524167 / 10000),
     ([1082, 1072, 1079, 1072, 1085, 1100], 557887 / 10000, 491221 / 10000),
     ([1091, 1092, 1072], 547431 / 10000, 559678 / 10000),
     ([1089, 1072, 1084, 1072, 1088, 1072], 531959 / 10000, 501002 / 10000),
     ([1087, 1077, 1088, 1084, 1100], 580105 / 10000, 562502 / 10000),
     ([1086, 1088, 1077, 1085, 1073, 1091, 1088, 1075], 517727 / 10000, 550988 / 10000),
     ([1080, 1078, 1077, 1074, 1089, 1082], 568527 / 10000, 532114 / 10000),
     ([1089, 1072, 1088, 1072, 1090, 1086, 1074], 515336 / 10000, 460343 / 10000),
     ([1091, 1083, 1100, 1103, 1085, 1086, 1074, 1089, 1082], 543142 / 10000, 484031 / 10000),
     ([1087, 1077, 1085, 1079, 1072], 531959 / 10000, 450183 / 10000)]"

text \<open>
  \<open>KNOWN_CITIES\<close>, \<open>CITY_ALIASES\<close> and \<open>CITY_DECLENSIONS\<close> are imported from
  \<open>src.config\<close>, whose source is not at hand; they are taken as they come. Of the two
  dictionaries only the keys are read here.
\<close>

record config =
  KNOWN_CITIES :: "str list"
  CITY_ALIASES :: "(str \<times> str) list"
  CITY_DECLENSIONS :: "(str \<times> str) list"

text \<open>
  \<open>get_coordinates\<close>. The cache maps a name to the answer given for it, which may be
  \<open>None\<close>. \<open>geocode\<close> is \<open>geolocator.geocode\<close> of the geopy library, a call
  over the network: it returns coordinates or \<open>None\<close>, or raises. The query is the
  name followed by a comma, a space and the Russian name of Russia.
\<close>

type_synonym geocoder = "str \<Rightarrow> py_error + coords option"

type_synonym geocode_cache = "str \<rightharpoonup> coords option"

definition get_coordinates ::
  "(str \<Rightarrow> str) \<Rightarrow> geocoder \<Rightarrow> geocode_cache \<Rightarrow> str \<Rightarrow> geocode_cache \<times> coords option" where
  "get_coordinates lower geocode cache location_name =
     (case cache location_name of
        Some cached \<Rightarrow> (cache, cached)
      | None \<Rightarrow>
          let location_lower = py_strip (lower location_name)
          in case map_of KNOWN_COORDINATES location_lower of
               Some coords \<Rightarrow> (cache(location_name \<mapsto> Some coords), Some coords)
             | None \<Rightarrow>
                 (case geocode (location_name @ [44, 32, 1056, 1086, 1089, 1089, 1080, 1103]) of
                    Inl e \<Rightarrow> (cache, None)
                  | Inr None \<Rightarrow> (cache(location_name \<mapsto> None), None)
                  | Inr (Some coords) \<Rightarrow> (cache(location_name \<mapsto> Some coords), Some coords)))"

text \<open>
  The two patterns of \<open>is_valid_city_name\<close>. \<open>re.match(r'^\d', s)\<close>: the string
  starts with a decimal digit. \<open>re.match(r'^[+-]?\d+([.,]\d+)?$', s)\<close>: an optional
  sign, a run of digits, optionally a point or comma and another run of digits, up to the
  end of the string or a line feed that ends it. A run of digits is followed by the end,
  by a point or comma, or by nothing the pattern accepts, so the longest run decides.
\<close>

definition starts_with_digit :: "str \<Rightarrow> bool" where
  "starts_with_digit s = (case s of [] \<Rightarrow> False | c # _ \<Rightarrow> py_isdecimal c)"

definition at_end :: "str \<Rightarrow> bool" where
  "at_end s \<longleftrightarrow> s = [] \<or> s = [10]"

definition is_number :: "str \<Rightarrow> bool" where
  "is_number s =
     (let unsigned = (case s of [] \<Rightarrow> [] | c # cs \<Rightarrow> if c = 43 \<or> c = 45 then cs else s);
          whole = takeWhile py_isdecimal unsigned;
          after = dropWhile py_isdecimal unsigned
      in whole \<noteq> [] \<and>
         (at_end after \<or>
          (case after of
             [] \<Rightarrow> False
           | c # cs \<Rightarrow>
               (c = 46 \<or> c = 44) \<and> takeWhile py_isdecimal cs \<noteq> [] \<and>
               at_end (dropWhile py_isdecimal cs))))"

text \<open>
  \<open>is_valid_city_name\<close>: the verdict, and the cache as the look-up leaves it.
\<close>

definition is_valid_city_name ::
  "(str \<Rightarrow> str) \<Rightarrow> config \<Rightarrow> geocoder \<Rightarrow> geocode_cache \<Rightarrow> str \<Rightarrow> geocode_cache \<times> bool" where
  "is_valid_city_name lower cfg geocode cache name =
     (if name = [] then (cache, False)
      else
        let name_lower = py_strip (lower name)
        in if length name_lower < 3 then (cache, False)
           else if name_lower \<in> set NOT_CITIES then (cache, False)
           else if py_isdigit name_lower then (cache, False)
           else if starts_with_digit name_lower then (cache, False)
           else if is_number name_lower then (cache, False)
           else if name_lower \<in> set (map lower (KNOWN_CITIES cfg)) then (cache, True)
           else if name_lower \<in> set (map fst (CITY_ALIASES cfg)) then (cache, True)
           else if name_lower \<in> set (map fst (CITY_DECLENSIONS cfg)) then (cache, True)
           else (case get_coordinates lower geocode cache name of
                   (cache1, Some coords) \<Rightarrow> (cache1, True)
                 | (cache1, None) \<Rightarrow> (cache1, False)))"

section \<open>Concrete inputs\<close>

text \<open>The cities Ufa and Kazan, in Cyrillic letters, and the links and stores the worked examples run on.\<close>

definition Ufa :: str where
  "Ufa = [1059, 1092, 1072]"

definition Kazan :: str where
  "Kazan = [1050, 1072, 1079, 1072, 1085, 1100]"

text \<open>
  Lower-casing for the worked examples: the Latin letters of ASCII and the Russian
  alphabet, on which it is what \<open>str.lower()\<close> does.
\<close>

definition lower_ru :: "str \<Rightarrow> str" where
  "lower_ru s =
     map (\<lambda>c. if 65 \<le> c \<and> c \<le> 90 then c + 32
              else if 1040 \<le> c \<and> c \<le> 1071 then c + 32
              else if c = 1025 then 1105
              else c) s"

text \<open>
  A name with a colon in it, a configuration with empty city tables, and a geocoder that
  finds that name, at the coordinates of Ufa, and nothing else.
\<close>

definition Ufa_Ufa :: str where
  "Ufa_Ufa = [1059, 1092, 1072, 58, 1059, 1092, 1072]"

definition no_config :: config where
  "no_config = \<lparr>KNOWN_CITIES = [], CITY_ALIASES = [], CITY_DECLENSIONS = []\<rparr>"

definition geocode_colon :: geocoder where
  "geocode_colon query =
     (if query = Ufa_Ufa @ [44, 32, 1056, 1086, 1089, 1089, 1080, 1103]
      then Inr (Some (547431 / 10000, 559678 / 10000))
      else Inr None)"

text \<open>
  The stoplist word with a capital letter (Transfer, in Cyrillic letters), the name of a
  settlement that starts with a number (40 let Oktyabrya, forty years of October), and a
  geocoder that finds both of them and nothing else.
\<close>

definition Transfer :: str where
  "Transfer = [1058, 1088, 1072, 1085, 1089, 1092, 1077, 1088]"

definition Sorok_let_Oktyabrya :: str where
  "Sorok_let_Oktyabrya =
     [52, 48, 32, 1083, 1077, 1090, 32, 1054, 1082, 1090, 1103, 1073, 1088, 1103]"

definition geocode_sorok :: geocoder where
  "geocode_sorok query =
     (if query = Sorok_let_Oktyabrya @ [44, 32, 1056, 1086, 1089, 1089, 1080, 1103]
      then Inr (Some (516 / 10, 392 / 10))
      else if query = Transfer @ [44, 32, 1056, 1086, 1089, 1089, 1080, 1103]
      then Inr (Some (55, 37))
      else Inr None)"

definition empty_db :: database where
  "empty_db = \<lparr>engine = True, users = [], user_groups = [], order_notifications = [],
                order_group_links = [], driver_settings = [], blacklist = []\<rparr>"

definition link_args_1 :: link_args where
  "link_args_1 = \<lparr>la_route_key = [1091, 1092, 1072, 58, 1082, 1072, 1079, 1072, 1085, 1100],
                    la_user_id = 7,
                    la_group_id = Some (- 1001234567890),
                    la_group_title = Some (ascii ''Taxi''),
                    la_source_link = Some (ascii ''https://t.me/c/1234567890/42''),
                    la_message_id = Some 42,
                    la_author_id = Some 555,
                    la_author_username = None,
                    la_author_first_name = Some (ascii ''Ivan'')\<rparr>"

text \<open>
  A stand-in for the geodesic distance in the worked examples: 111 km for each degree of
  latitude or longitude between the two points.
\<close>

definition example_km :: "coords \<Rightarrow> coords \<Rightarrow> real" where
  "example_km p q = 111 * (\<bar>fst p - fst q\<bar> + \<bar>snd p - snd q\<bar>)"

definition order_1 :: ParsedOrder where
  "order_1 = \<lparr>point_a = Ufa, point_b = Kazan, price = Some 999,
               original_text = Ufa @ ascii '' - '' @ Kazan @ ascii '' 999'',
               source_group = ascii ''-1001234567890'',
               source_link = ascii ''https://t.me/c/1234567890/42'',
               region = None,
               point_a_coords = Some (547431 / 10000, 559678 / 10000),
               point_b_coords = Some (557887 / 10000, 491221 / 10000),
               timestamp = ascii ''2025-01-01T12:00:00'',
               group_title = Some (ascii ''Taxi''),
               source_group_id = Some (- 1001234567890),
               message_id = Some 42,
               author_id = Some 555,
               author_username = None,
               author_first_name = Some (ascii ''Ivan'')\<rparr>"

definition driver_1 :: User where
  "driver_1 = \<lparr>u_id = 7, u_telegram_id = 7007, u_username = None,
                u_first_name = Some (ascii ''Petr''),
                u_latitude = Some (547431 / 10000), u_longitude = Some (558678 / 10000),
                u_radius_km = Some 50, u_min_price = Some 1000,
                u_active = Some True, u_is_admin = Some False\<rparr>"

text \<open>
  A store holding only that driver. The same driver one degree of longitude, 111 km,
  from point A, once with a radius of 111 km and once with a radius of 110 km. The same
  driver without a price floor, and the same order without coordinates of point A and
  without a price.
\<close>

definition db_1 :: database where
  "db_1 = empty_db\<lparr>users := [driver_1]\<rparr>"

definition driver_at_radius :: User where
  "driver_at_radius = driver_1\<lparr>u_longitude := Some (549678 / 10000), u_radius_km := Some 111\<rparr>"

definition driver_beyond_radius :: User where
  "driver_beyond_radius = driver_1\<lparr>u_longitude := Some (549678 / 10000), u_radius_km := Some 110\<rparr>"

definition driver_no_floor :: User where
  "driver_no_floor = driver_1\<lparr>u_min_price := Some 0\<rparr>"

definition order_no_coords :: ParsedOrder where
  "order_no_coords = order_1\<lparr>point_a_coords := None\<rparr>"

definition order_no_price :: ParsedOrder where
  "order_no_price = order_1\<lparr>price := None\<rparr>"

definition Ufa_coords :: coords where
  "Ufa_coords = (547431 / 10000, 559678 / 10000)"

text \<open>
  A notification of driver 7 for the route from Ufa to Kazan, sent at time 0 with message
  handle 900; a Bot API that sends every message, with \<open>message_id\<close> 901, and edits
  every message; a renderer; and the time one hour after the notification was sent.
\<close>

definition route_key_1 :: str where
  "route_key_1 = [1091, 1092, 1072, 58, 1082, 1072, 1079, 1072, 1085, 1100]"

definition notification_1 :: OrderNotification where
  "notification_1 = \<lparr>on_id = 1, on_order_id = 3, on_user_id = 7, on_sent_at = Some 0,
                      on_message_id = Some 900, on_route_key = Some route_key_1\<rparr>"

definition send_message_1 :: "send_call \<Rightarrow> py_error + int" where
  "send_message_1 c = Inr 901"

definition edit_message_text_1 :: "edit_call \<Rightarrow> py_error + unit" where
  "edit_message_text_1 c = Inr ()"

definition fmt_1 :: formatter where
  "fmt_1 db order km group_links user_id = original_text order"

definition one_hour :: int where
  "one_hour = 3600000000"

text \<open>
  A store in which nothing suppresses driver 7, holding that notification and a second
  one for the same route, sent half an hour later with message handle 905; and the time
  three hours after the first was sent.
\<close>

definition notification_2 :: OrderNotification where
  "notification_2 = \<lparr>on_id = 2, on_order_id = 4, on_user_id = 7, on_sent_at = Some 1800000000,
                      on_message_id = Some 905, on_route_key = Some route_key_1\<rparr>"

definition db_fresh :: database where
  "db_fresh = empty_db\<lparr>order_notifications := [notification_1, notification_2]\<rparr>"

definition three_hours :: int where
  "three_hours = 10800000000"

text \<open>
  The blacklist of driver 7 after the driver entered the author \<open>@spammer\<close> and the
  group name \<open>Taxi\<close> in the bot: \<open>handle_blacklist_input\<close> stores a user name
  and a group name without an id. And the order of that author in that group.
\<close>

definition blacklist_by_username :: Blacklist where
  "blacklist_by_username = \<lparr>bl_user_id = 7, bl_block_type = ascii ''author'',
                             bl_blocked_id = None,
                             bl_blocked_username = Some (ascii ''spammer''),
                             bl_blocked_name = Some (ascii ''@spammer'')\<rparr>"

definition blacklist_by_title :: Blacklist where
  "blacklist_by_title = \<lparr>bl_user_id = 7, bl_block_type = ascii ''group'',
                          bl_blocked_id = None, bl_blocked_username = None,
                          bl_blocked_name = Some (ascii ''Taxi'')\<rparr>"

definition db_blacklist :: database where
  "db_blacklist = empty_db\<lparr>blacklist := [blacklist_by_username, blacklist_by_title]\<rparr>"

definition order_spammer :: ParsedOrder where
  "order_spammer = order_1\<lparr>author_username := Some (ascii ''spammer'')\<rparr>"

text \<open>
  A placement that puts a new key first in the iteration order, and a monitor whose set
  holds 10000 keys.
\<close>

definition add_first :: "str list \<Rightarrow> str \<Rightarrow> str list" where
  "add_first keys k = k # keys"

definition monitor_full :: MultiUserMonitor where
  "monitor_full = \<lparr>has_callback = True,
                    processed_orders = map (\<lambda>i. ascii ''x_'' @ digits_of i) (rev [0..<10000])\<rparr>"

definition monitor_empty :: MultiUserMonitor where
  "monitor_empty = \<lparr>has_callback = True, processed_orders = []\<rparr>"

section \<open>Valid city names\<close>

lemma py_strip_Nil: "py_strip [] = []"
  by (simp add: py_strip_def py_lstrip_def py_rstrip_def)

lemma get_coordinates_found:
  "snd (get_coordinates lower geocode cache name) \<noteq> None \<longleftrightarrow>
     (case cache name of
        Some cached \<Rightarrow> cached \<noteq> None
      | None \<Rightarrow>
          map_of KNOWN_COORDINATES (py_strip (lower name)) \<noteq> None \<or>
          (\<exists>c. geocode (name @ [44, 32, 1056, 1086, 1089, 1089, 1080, 1103]) = Inr (Some c)))"
  by (auto simp add: get_coordinates_def Let_def split: option.splits sum.splits)

lemma is_valid_city_name_snd:
  assumes "lower [] = []"
  shows "snd (is_valid_city_name lower cfg geocode cache name) \<longleftrightarrow>
     3 \<le> length (py_strip (lower name)) \<and>
     \<not> py_isdigit (py_strip (lower name)) \<and> \<not> is_number (py_strip (lower name)) \<and>
     \<not> starts_with_digit (py_strip (lower name)) \<and>
     py_strip (lower name) \<notin> set NOT_CITIES \<and>
     (py_strip (lower name) \<in> set (map lower (KNOWN_CITIES cfg)) \<or>
      py_strip (lower name) \<in> set (map fst (CITY_ALIASES cfg)) \<or>
      py_strip (lower name) \<in> set (map fst (CITY_DECLENSIONS cfg)) \<or>
      snd (get_coordinates lower geocode cache name) \<noteq> None)"
proof (cases "name = []")
  case True
  with assms show ?thesis
    by (simp add: is_valid_city_name_def py_strip_Nil)
next
  case False
  obtain cache1 r where g: "get_coordinates lower geocode cache name = (cache1, r)"
    by (cases "get_coordinates lower geocode cache name")
  show ?thesis
    using False
    by (cases r) (auto simp add: is_valid_city_name_def Let_def g)
qed

lemma transfer_in_NOT_CITIES:
  "[1090, 1088, 1072, 1085, 1089, 1092, 1077, 1088] \<in> set NOT_CITIES"
  by (simp add: NOT_CITIES_def)

lemma is_valid_city_name_stoplist:
  "py_strip (lower name) \<in> set NOT_CITIES \<Longrightarrow>
   is_valid_city_name lower cfg geocode cache name = (cache, False)"
  by (simp add: is_valid_city_name_def Let_def)

lemma letters_not_digits:
  "1072 \<le> c \<Longrightarrow> c \<le> 1103 \<Longrightarrow> \<not> py_isdecimal c"
  "1072 \<le> c \<Longrightarrow> c \<le> 1103 \<Longrightarrow> \<not> list_ex (\<lambda>(a, b). a \<le> c \<and> c \<le> b) digit_ranges"
  by (simp_all add: py_isdecimal_def decimal_value_def decimal_zeros_def digit_ranges_def)

lemma ascii_digit_decimal: "48 \<le> c \<Longrightarrow> c \<le> 57 \<Longrightarrow> py_isdecimal c"
  by (simp add: py_isdecimal_def decimal_value_def decimal_zeros_def)

lemma Ufa_lower: "py_strip (lower_ru Ufa) = [1091, 1092, 1072]"
  by (simp add: Ufa_def lower_ru_def py_strip_def py_lstrip_def py_rstrip_def py_isspace_def)

lemma Ufa_plain:
  "\<not> py_isdigit [1091, 1092, 1072]" "\<not> is_number [1091, 1092, 1072]"
  "\<not> starts_with_digit [1091, 1092, 1072]" "[1091, 1092, 1072] \<notin> set NOT_CITIES"
  by (simp_all add: py_isdigit_def is_number_def starts_with_digit_def letters_not_digits
        NOT_CITIES_def)

lemma Ufa_known:
  "map_of KNOWN_COORDINATES [1091, 1092, 1072] = Some (547431 / 10000, 559678 / 10000)"
  by (simp add: KNOWN_COORDINATES_def)

lemma lower_ru_Nil: "lower_ru [] = []"
  by (simp add: lower_ru_def)

lemma is_valid_city_name_Ufa:
  "snd (is_valid_city_name lower_ru cfg geocode Map.empty Ufa)"
  by (simp add: is_valid_city_name_snd [of lower_ru, OF lower_ru_Nil] get_coordinates_found Ufa_lower
        Ufa_plain Ufa_known del: not_None_eq)

text \<open>
  C7, as the code has it, for every lower-casing that maps the empty string to itself.
  \<open>is_valid_city_name\<close> accepts a candidate iff its lower-cased, trimmed form has at
  least 3 characters, is not purely numeric (neither all digits nor a number with an
  optional sign and an optional decimal part), does not start with a decimal digit, is
  not in the stoplist, and is one of the lower-cased known cities, a key of the alias
  table or a key of the declension table, or \<open>get_coordinates\<close> finds coordinates
  for the candidate. \<open>get_coordinates\<close> finds coordinates iff the cache holds
  coordinates for the name, or holds nothing for it and either the hand-made table has
  the lower-cased, trimmed name or the geocoder returns coordinates for the name
  followed by the country. The stoplist word Transfer, written with a capital letter,
  is rejected whatever the tables, the cache and the geocoder hold.
\<close>

theorem is_valid_city_name_iff:
  assumes "lower [] = []"
  shows
    "(snd (is_valid_city_name lower cfg geocode cache name) \<longleftrightarrow>
        3 \<le> length (py_strip (lower name)) \<and>
        \<not> py_isdigit (py_strip (lower name)) \<and> \<not> is_number (py_strip (lower name)) \<and>
        \<not> starts_with_digit (py_strip (lower name)) \<and>
        py_strip (lower name) \<notin> set NOT_CITIES \<and>
        (py_strip (lower name) \<in> set (map lower (KNOWN_CITIES cfg)) \<or>
         py_strip (lower name) \<in> set (map fst (CITY_ALIASES cfg)) \<or>
         py_strip (lower name) \<in> set (map fst (CITY_DECLENSIONS cfg)) \<or>
         snd (get_coordinates lower geocode cache name) \<noteq> None)) \<and>
     (snd (get_coordinates lower geocode cache name) \<noteq> None \<longleftrightarrow>
        (case cache name of
           Some cached \<Rightarrow> cached \<noteq> None
         | None \<Rightarrow>
             map_of KNOWN_COORDINATES (py_strip (lower name)) \<noteq> None \<or>
             (\<exists>c. geocode (name @ [44, 32, 1056, 1086, 1089, 1089, 1080, 1103]) = Inr (Some c)))) \<and>
     (lower Transfer = [1090, 1088, 1072, 1085, 1089, 1092, 1077, 1088] \<longrightarrow>
        \<not> snd (is_valid_city_name lower cfg geocode cache Transfer))"
proof -
  have "\<not> snd (is_valid_city_name lower cfg geocode cache Transfer)"
    if "lower Transfer = [1090, 1088, 1072, 1085, 1089, 1092, 1077, 1088]"
  proof -
    have "py_strip (lower Transfer) = [1090, 1088, 1072, 1085, 1089, 1092, 1077, 1088]"
      by (simp add: that py_strip_def py_lstrip_def py_rstrip_def py_isspace_def)
    with transfer_in_NOT_CITIES have "py_strip (lower Transfer) \<in> set NOT_CITIES"
      by simp
    from is_valid_city_name_stoplist [of lower Transfer cfg geocode cache] this show ?thesis
      by simp
  qed
  with is_valid_city_name_snd [of lower, OF assms, of cfg geocode cache name]
    get_coordinates_found [of lower geocode cache name]
  show ?thesis
    by blast
qed

theorem is_valid_city_name_iff_witness:
  "lower_ru [] = [] \<and>
   lower_ru Transfer = [1090, 1088, 1072, 1085, 1089, 1092, 1077, 1088] \<and>
   geocode_sorok (Transfer @ [44, 32, 1056, 1086, 1089, 1089, 1080, 1103]) = Inr (Some (55, 37)) \<and>
   \<not> snd (is_valid_city_name lower_ru no_config geocode_sorok Map.empty Transfer) \<and>
   py_strip (lower_ru Ufa) = [1091, 1092, 1072] \<and>
   map_of KNOWN_COORDINATES [1091, 1092, 1072] = Some (547431 / 10000, 559678 / 10000) \<and>
   snd (get_coordinates lower_ru geocode_sorok Map.empty Ufa) \<noteq> None \<and>
   snd (is_valid_city_name lower_ru no_config geocode_sorok Map.empty Ufa)"
proof -
  have t: "lower_ru Transfer = [1090, 1088, 1072, 1085, 1089, 1092, 1077, 1088]"
    by (simp add: lower_ru_def Transfer_def)
  have g: "geocode_sorok (Transfer @ [44, 32, 1056, 1086, 1089, 1089, 1080, 1103]) =
      Inr (Some (55, 37))"
    by (simp add: geocode_sorok_def Transfer_def Sorok_let_Oktyabrya_def)
  have c: "(case (Map.empty :: geocode_cache) Ufa of
              Some cached \<Rightarrow> cached \<noteq> None
            | None \<Rightarrow>
                map_of KNOWN_COORDINATES (py_strip (lower_ru Ufa)) \<noteq> None \<or>
                (\<exists>c. geocode_sorok (Ufa @ [44, 32, 1056, 1086, 1089, 1089, 1080, 1103]) = Inr (Some c)))"
    by (simp add: Ufa_lower Ufa_known del: not_None_eq)
  have p: "3 \<le> length (py_strip (lower_ru Ufa)) \<and>
      \<not> py_isdigit (py_strip (lower_ru Ufa)) \<and> \<not> is_number (py_strip (lower_ru Ufa)) \<and>
      \<not> starts_with_digit (py_strip (lower_ru Ufa)) \<and>
      py_strip (lower_ru Ufa) \<notin> set NOT_CITIES"
    by (simp add: Ufa_lower Ufa_plain)
  note main = is_valid_city_name_iff [of lower_ru, OF lower_ru_Nil, of no_config geocode_sorok Map.empty]
  from main [of Transfer] t
  have w1: "\<not> snd (is_valid_city_name lower_ru no_config geocode_sorok Map.empty Transfer)"
    by blast
  from main [of Ufa] c
  have w2: "snd (get_coordinates lower_ru geocode_sorok Map.empty Ufa) \<noteq> None"
    by blast
  from main [of Ufa] p w2
  have w3: "snd (is_valid_city_name lower_ru no_config geocode_sorok Map.empty Ufa)"
    by blast
  from lower_ru_Nil t g w1 Ufa_lower Ufa_known w2 w3 show ?thesis
    by blast
qed

text \<open>
  A name that starts with a number: its lower-cased, trimmed form has 14 characters, is
  not purely numeric and not in the stoplist, and the geocoder finds it, yet
  \<open>is_valid_city_name\<close> rejects it.
\<close>

theorem digit_leading_name_counterexample:
  "length (py_strip (lower_ru Sorok_let_Oktyabrya)) = 14 \<and>
   \<not> py_isdigit (py_strip (lower_ru Sorok_let_Oktyabrya)) \<and>
   \<not> is_number (py_strip (lower_ru Sorok_let_Oktyabrya)) \<and>
   py_strip (lower_ru Sorok_let_Oktyabrya) \<notin> set NOT_CITIES \<and>
   geocode_sorok (Sorok_let_Oktyabrya @ [44, 32, 1056, 1086, 1089, 1089, 1080, 1103]) =
     Inr (Some (516 / 10, 392 / 10)) \<and>
   get_coordinates lower_ru geocode_sorok Map.empty Sorok_let_Oktyabrya =
     (Map.empty(Sorok_let_Oktyabrya \<mapsto> Some (516 / 10, 392 / 10)), Some (516 / 10, 392 / 10)) \<and>
   starts_with_digit (py_strip (lower_ru Sorok_let_Oktyabrya)) \<and>
   is_valid_city_name lower_ru no_config geocode_sorok Map.empty Sorok_let_Oktyabrya =
     (Map.empty, False)"
proof -
  have l: "py_strip (lower_ru Sorok_let_Oktyabrya) =
      [52, 48, 32, 1083, 1077, 1090, 32, 1086, 1082, 1090, 1103, 1073, 1088, 1103]"
    by (simp add: Sorok_let_Oktyabrya_def lower_ru_def py_strip_def py_lstrip_def py_rstrip_def
          py_isspace_def)
  have ne: "Sorok_let_Oktyabrya \<noteq> []"
    by (simp add: Sorok_let_Oktyabrya_def)
  have d: "py_isdecimal 52" "py_isdecimal 48" "\<not> py_isdecimal 32"
    by (simp_all add: py_isdecimal_def decimal_value_def decimal_zeros_def)
  have a: "\<not> py_isdigit [52, 48, 32, 1083, 1077, 1090, 32, 1086, 1082, 1090, 1103, 1073, 1088, 1103]"
    by (simp add: py_isdigit_def digit_ranges_def)
  have b: "\<not> is_number [52, 48, 32, 1083, 1077, 1090, 32, 1086, 1082, 1090, 1103, 1073, 1088, 1103]"
    by (simp add: is_number_def d at_end_def)
  have n: "[52, 48, 32, 1083, 1077, 1090, 32, 1086, 1082, 1090, 1103, 1073, 1088, 1103] \<notin> set NOT_CITIES"
    by (simp add: NOT_CITIES_def)
  have s: "starts_with_digit [52, 48, 32, 1083, 1077, 1090, 32, 1086, 1082, 1090, 1103, 1073, 1088, 1103]"
    by (simp add: starts_with_digit_def d)
  have g: "geocode_sorok (Sorok_let_Oktyabrya @ [44, 32, 1056, 1086, 1089, 1089, 1080, 1103]) =
      Inr (Some (516 / 10, 392 / 10))"
    by (simp add: geocode_sorok_def)
  have k: "map_of KNOWN_COORDINATES
      [52, 48, 32, 1083, 1077, 1090, 32, 1086, 1082, 1090, 1103, 1073, 1088, 1103] = None"
    by (simp add: KNOWN_COORDINATES_def)
  have c: "get_coordinates lower_ru geocode_sorok Map.empty Sorok_let_Oktyabrya =
      (Map.empty(Sorok_let_Oktyabrya \<mapsto> Some (516 / 10, 392 / 10)), Some (516 / 10, 392 / 10))"
    by (simp add: get_coordinates_def l k g)
  have v: "is_valid_city_name lower_ru no_config geocode_sorok Map.empty Sorok_let_Oktyabrya =
      (Map.empty, False)"
    using ne by (simp add: is_valid_city_name_def Let_def l a n s)
  from l a b n g c s v show ?thesis
    by simp
qed

section \<open>Route keys are directed\<close>

lemma colon_split_unique:
  assumes "(58::nat) \<notin> set x" and "58 \<notin> set y" and "x @ [58] @ u = y @ [58] @ v"
  shows "x = y \<and> u = v"
proof -
  have "takeWhile (\<lambda>c. c \<noteq> 58) (x @ [58] @ u) = x"
    using assms(1) by (auto simp add: takeWhile_tail takeWhile_eq_all_conv)
  moreover have "takeWhile (\<lambda>c. c \<noteq> 58) (y @ [58] @ v) = y"
    using assms(2) by (auto simp add: takeWhile_tail takeWhile_eq_all_conv)
  ultimately have "x = y"
    using assms(3) by simp
  with assms(3) show ?thesis
    by simp
qed

lemma normalize_route_key_Some:
  "lower [] = [] \<Longrightarrow>
   normalize_route_key lower (Some a) (Some b) = lower (py_strip a) @ [58] @ lower (py_strip b)"
  by (simp add: normalize_route_key_def py_strip_def py_lstrip_def py_rstrip_def)

lemmas text_defs =
  ascii_def lower_ru_def py_strip_def py_lstrip_def py_rstrip_def py_isspace_def

text \<open>
  C5, as the code has it, for every lower-casing that maps the empty string to itself.
  The key of \<open>(a, b)\<close> is the stripped, lower-cased \<open>a\<close>, a colon, and the
  stripped, lower-cased \<open>b\<close>. Two pairs whose first names have no colon after
  normalisation and that get the same key have the same normalised names, first and
  second. So swapping the two points changes the key whenever the two normalised names
  differ and neither contains a colon.
\<close>

theorem normalize_route_key_directed:
  assumes "lower [] = []"
  shows
    "normalize_route_key lower (Some a) (Some b) =
       lower (py_strip a) @ [58] @ lower (py_strip b) \<and>
     (58 \<notin> set (lower (py_strip a)) \<and> 58 \<notin> set (lower (py_strip c)) \<and>
      normalize_route_key lower (Some a) (Some b) = normalize_route_key lower (Some c) (Some d) \<longrightarrow>
        lower (py_strip a) = lower (py_strip c) \<and> lower (py_strip b) = lower (py_strip d)) \<and>
     (58 \<notin> set (lower (py_strip a)) \<and> 58 \<notin> set (lower (py_strip b)) \<and>
      lower (py_strip a) \<noteq> lower (py_strip b) \<longrightarrow>
        normalize_route_key lower (Some a) (Some b) \<noteq> normalize_route_key lower (Some b) (Some a))"
proof -
  note k = normalize_route_key_Some [of lower, OF assms]
  have inj: "lower (py_strip a) = lower (py_strip c) \<and> lower (py_strip b) = lower (py_strip d)"
    if "58 \<notin> set (lower (py_strip a))" "58 \<notin> set (lower (py_strip c))"
      "normalize_route_key lower (Some a) (Some b) = normalize_route_key lower (Some c) (Some d)"
    for a b c d
    using colon_split_unique [OF that(1) that(2), of "lower (py_strip b)" "lower (py_strip d)"]
      that(3) by (simp add: k)
  have dir: "normalize_route_key lower (Some a) (Some b) \<noteq> normalize_route_key lower (Some b) (Some a)"
    if "58 \<notin> set (lower (py_strip a))" "58 \<notin> set (lower (py_strip b))"
      "lower (py_strip a) \<noteq> lower (py_strip b)"
    using inj [OF that(1) that(2), of b a] that(3) by blast
  from k inj [of a c b d] dir show ?thesis
    by blast
qed

theorem normalize_route_key_directed_witness:
  "lower_ru [] = [] \<and>
   58 \<notin> set (lower_ru (py_strip Ufa)) \<and> 58 \<notin> set (lower_ru (py_strip Kazan)) \<and>
   lower_ru (py_strip Ufa) \<noteq> lower_ru (py_strip Kazan) \<and>
   normalize_route_key lower_ru (Some Ufa) (Some Kazan) =
     [1091, 1092, 1072, 58, 1082, 1072, 1079, 1072, 1085, 1100] \<and>
   normalize_route_key lower_ru (Some Ufa) (Some Kazan) \<noteq>
     normalize_route_key lower_ru (Some Kazan) (Some Ufa)"
proof -
  have e: "lower_ru [] = []"
    by (simp add: lower_ru_def)
  have h: "58 \<notin> set (lower_ru (py_strip Ufa)) \<and> 58 \<notin> set (lower_ru (py_strip Kazan)) \<and>
      lower_ru (py_strip Ufa) \<noteq> lower_ru (py_strip Kazan)"
    by (simp add: Ufa_def Kazan_def text_defs)
  have v: "lower_ru (py_strip Ufa) @ [58] @ lower_ru (py_strip Kazan) =
      [1091, 1092, 1072, 58, 1082, 1072, 1079, 1072, 1085, 1100]"
    by (simp add: Ufa_def Kazan_def text_defs)
  from normalize_route_key_directed [of lower_ru Ufa Kazan Kazan Ufa, OF e] h
  have k: "normalize_route_key lower_ru (Some Ufa) (Some Kazan) =
      lower_ru (py_strip Ufa) @ [58] @ lower_ru (py_strip Kazan)"
    and d: "normalize_route_key lower_ru (Some Ufa) (Some Kazan) \<noteq>
      normalize_route_key lower_ru (Some Kazan) (Some Ufa)"
    by blast+
  from k v have "normalize_route_key lower_ru (Some Ufa) (Some Kazan) =
      [1091, 1092, 1072, 58, 1082, 1072, 1079, 1072, 1085, 1100]"
    by (rule trans)
  with d have "normalize_route_key lower_ru (Some Ufa) (Some Kazan) =
      [1091, 1092, 1072, 58, 1082, 1072, 1079, 1072, 1085, 1100] \<and>
    normalize_route_key lower_ru (Some Ufa) (Some Kazan) \<noteq>
      normalize_route_key lower_ru (Some Kazan) (Some Ufa)"
    by (rule conjI [rotated])
  with e h show ?thesis
    by blast
qed

text \<open>
  Two names that \<open>is_valid_city_name\<close> accepts, the first through the geocoder and the
  second through the hand-made table, with different normalised forms, and one key for
  both directions of the route.
\<close>

theorem normalize_route_key_colon_counterexample:
  "snd (is_valid_city_name lower_ru no_config geocode_colon Map.empty Ufa_Ufa) \<and>
   snd (is_valid_city_name lower_ru no_config geocode_colon Map.empty Ufa) \<and>
   lower_ru (py_strip Ufa_Ufa) = [1091, 1092, 1072, 58, 1091, 1092, 1072] \<and>
   lower_ru (py_strip Ufa) = [1091, 1092, 1072] \<and>
   lower_ru (py_strip Ufa_Ufa) \<noteq> lower_ru (py_strip Ufa) \<and>
   normalize_route_key lower_ru (Some Ufa_Ufa) (Some Ufa) =
     [1091, 1092, 1072, 58, 1091, 1092, 1072, 58, 1091, 1092, 1072] \<and>
   normalize_route_key lower_ru (Some Ufa) (Some Ufa_Ufa) =
     [1091, 1092, 1072, 58, 1091, 1092, 1072, 58, 1091, 1092, 1072]"
proof -
  have l: "py_strip (lower_ru Ufa_Ufa) = [1091, 1092, 1072, 58, 1091, 1092, 1072]"
    by (simp add: Ufa_Ufa_def text_defs)
  have p: "\<not> py_isdigit [1091, 1092, 1072, 58, 1091, 1092, 1072]"
    "\<not> is_number [1091, 1092, 1072, 58, 1091, 1092, 1072]"
    "\<not> starts_with_digit [1091, 1092, 1072, 58, 1091, 1092, 1072]"
    "[1091, 1092, 1072, 58, 1091, 1092, 1072] \<notin> set NOT_CITIES"
    by (simp_all add: py_isdigit_def is_number_def starts_with_digit_def letters_not_digits
          NOT_CITIES_def)
  have g: "geocode_colon (Ufa_Ufa @ [44, 32, 1056, 1086, 1089, 1089, 1080, 1103]) =
      Inr (Some (547431 / 10000, 559678 / 10000))"
    by (simp add: geocode_colon_def)
  from g have e: "\<exists>c. geocode_colon (Ufa_Ufa @ [44, 32, 1056, 1086, 1089, 1089, 1080, 1103]) =
      Inr (Some c)"
    by (rule exI)
  have f: "snd (get_coordinates lower_ru geocode_colon Map.empty Ufa_Ufa) \<noteq> None"
    unfolding get_coordinates_found using e by simp
  have v: "snd (is_valid_city_name lower_ru no_config geocode_colon Map.empty Ufa_Ufa)"
    unfolding is_valid_city_name_snd [of lower_ru, OF lower_ru_Nil] using f
    by (simp add: l p)
  have k: "lower_ru (py_strip Ufa_Ufa) = [1091, 1092, 1072, 58, 1091, 1092, 1072]"
    "lower_ru (py_strip Ufa) = [1091, 1092, 1072]"
    by (simp_all add: Ufa_Ufa_def Ufa_def text_defs)
  have "normalize_route_key lower_ru (Some Ufa_Ufa) (Some Ufa) =
      [1091, 1092, 1072, 58, 1091, 1092, 1072, 58, 1091, 1092, 1072]"
    "normalize_route_key lower_ru (Some Ufa) (Some Ufa_Ufa) =
      [1091, 1092, 1072, 58, 1091, 1092, 1072, 58, 1091, 1092, 1072]"
    by (simp_all add: normalize_route_key_Some [of lower_ru, OF lower_ru_Nil] k)
  with v is_valid_city_name_Ufa [of no_config geocode_colon] k show ?thesis
    by simp
qed

section \<open>Adding a group link is idempotent\<close>

lemma add_order_group_link_existing:
  assumes "engine db" and "filter (same_link a) (order_group_links db) = x # xs"
  shows "add_order_group_link db now a = (db, Some x)"
  using assms by (simp add: add_order_group_link_def)

lemma add_order_group_link_calls_existing:
  assumes "engine db" and "filter (same_link a) (order_group_links db) = x # xs"
  shows "add_order_group_link_calls db nows a = (db, replicate (length nows) (Some x))"
  using assms by (induction nows) (simp_all add: add_order_group_link_existing)

lemma add_order_group_link_fresh:
  assumes "engine db" and "filter (same_link a) (order_group_links db) = []"
  shows "\<exists>l. add_order_group_link db now a =
           (db\<lparr>order_group_links := order_group_links db @ [l]\<rparr>, Some l) \<and> same_link a l"
  using assms by (simp add: add_order_group_link_def Let_def same_link_def)

lemma add_order_group_link_calls_fresh:
  assumes "engine db" and "filter (same_link a) (order_group_links db) = []"
  shows "\<exists>row. same_link a row \<and>
           add_order_group_link_calls db (t # ts) a =
             (db\<lparr>order_group_links := order_group_links db @ [row]\<rparr>,
              replicate (Suc (length ts)) (Some row))"
proof -
  from add_order_group_link_fresh [OF assms, of t] obtain l where
    l: "add_order_group_link db t a =
          (db\<lparr>order_group_links := order_group_links db @ [l]\<rparr>, Some l)" "same_link a l"
    by blast
  let ?db1 = "db\<lparr>order_group_links := order_group_links db @ [l]\<rparr>"
  have "filter (same_link a) (order_group_links ?db1) = [l]"
    using assms(2) l(2) by simp
  moreover have "engine ?db1"
    using assms(1) by simp
  ultimately have "add_order_group_link_calls ?db1 ts a = (?db1, replicate (length ts) (Some l))"
    using add_order_group_link_calls_existing [of ?db1 a l "[]" ts] by simp
  then show ?thesis
    using l by auto
qed

text \<open>
  C2. With a session available, any positive number of calls with the same
  \<open>(route_key, user, source_link)\<close> leaves exactly one row for the triple when there was
  none: the table is the old one with that row appended, and every call returns it. When
  a row for the triple is already stored, the calls return the stored row and the store
  stays as it was; so no stored row is ever changed or removed.
\<close>

theorem add_order_group_link_idempotent:
  assumes "engine db" and "nows \<noteq> []"
  shows "(filter (same_link a) (order_group_links db) = [] \<longrightarrow>
            (\<exists>row. filter (same_link a)
                     (order_group_links (fst (add_order_group_link_calls db nows a))) = [row] \<and>
                   order_group_links (fst (add_order_group_link_calls db nows a)) =
                     order_group_links db @ [row] \<and>
                   snd (add_order_group_link_calls db nows a) =
                     replicate (length nows) (Some row))) \<and>
         (filter (same_link a) (order_group_links db) \<noteq> [] \<longrightarrow>
            add_order_group_link_calls db nows a =
              (db, replicate (length nows)
                     (Some (hd (filter (same_link a) (order_group_links db))))))"
proof -
  obtain t ts where nows: "nows = t # ts"
    using assms(2) by (cases nows) auto
  have fresh: "\<exists>row. filter (same_link a)
                     (order_group_links (fst (add_order_group_link_calls db nows a))) = [row] \<and>
                   order_group_links (fst (add_order_group_link_calls db nows a)) =
                     order_group_links db @ [row] \<and>
                   snd (add_order_group_link_calls db nows a) =
                     replicate (length nows) (Some row)"
    if e: "filter (same_link a) (order_group_links db) = []"
  proof -
    from add_order_group_link_calls_fresh [OF assms(1) e, of t ts] obtain row where
      "same_link a row"
      "add_order_group_link_calls db (t # ts) a =
         (db\<lparr>order_group_links := order_group_links db @ [row]\<rparr>,
          replicate (Suc (length ts)) (Some row))"
      by blast
    then show ?thesis
      using e nows by auto
  qed
  have stored: "add_order_group_link_calls db nows a =
              (db, replicate (length nows)
                     (Some (hd (filter (same_link a) (order_group_links db)))))"
    if "filter (same_link a) (order_group_links db) \<noteq> []"
  proof -
    from that obtain x xs where "filter (same_link a) (order_group_links db) = x # xs"
      by (cases "filter (same_link a) (order_group_links db)") auto
    with add_order_group_link_calls_existing [OF assms(1) this] show ?thesis
      by simp
  qed
  from fresh stored show ?thesis
    by blast
qed

theorem add_order_group_link_idempotent_witness:
  "engine empty_db \<and> [10, 20, 30 :: int] \<noteq> [] \<and>
   filter (same_link link_args_1) (order_group_links empty_db) = [] \<and>
   (\<exists>row. filter (same_link link_args_1)
            (order_group_links (fst (add_order_group_link_calls empty_db [10, 20, 30] link_args_1))) =
            [row] \<and>
          order_group_links (fst (add_order_group_link_calls empty_db [10, 20, 30] link_args_1)) =
            order_group_links empty_db @ [row] \<and>
          snd (add_order_group_link_calls empty_db [10, 20, 30] link_args_1) =
            replicate (length [10, 20, 30 :: int]) (Some row))"
proof -
  have h: "engine empty_db" "[10, 20, 30 :: int] \<noteq> []"
    "filter (same_link link_args_1) (order_group_links empty_db) = []"
    by (simp_all add: empty_db_def)
  from add_order_group_link_idempotent [OF h(1) h(2), of link_args_1] h(3)
  have "\<exists>row. filter (same_link link_args_1)
            (order_group_links (fst (add_order_group_link_calls empty_db [10, 20, 30] link_args_1))) =
            [row] \<and>
          order_group_links (fst (add_order_group_link_calls empty_db [10, 20, 30] link_args_1)) =
            order_group_links empty_db @ [row] \<and>
          snd (add_order_group_link_calls empty_db [10, 20, 30] link_args_1) =
            replicate (length [10, 20, 30 :: int]) (Some row)"
    by blast
  with h show ?thesis
    by blast
qed

section \<open>The radius and price filters\<close>

lemmas value_defs = truthy_def or_else_def truthy_str_def or_else_str_def

lemma set_matching_of: "set (matching_of vs) = {d. Matches d \<in> set vs}"
  by (induction vs rule: matching_of.induct) auto

lemma find_matching_drivers_no_coords:
  "point_a_coords order = None \<Longrightarrow>
   find_matching_drivers geodesic_km round1 db order filter_by_group = []"
  by (simp add: find_matching_drivers_def)

lemma set_find_matching_drivers:
  "point_a_coords order = Some c \<Longrightarrow>
   set (find_matching_drivers geodesic_km round1 db order filter_by_group) =
     {d. \<exists>u \<in> set (candidate_drivers db order filter_by_group).
            consider_driver geodesic_km round1 c order u = Matches d}"
  by (auto simp add: find_matching_drivers_def set_matching_of Let_def image_iff) metis

lemma consider_driver_has_coords:
  "u_latitude driver = Some la \<Longrightarrow> la \<noteq> 0 \<Longrightarrow> u_longitude driver = Some lo \<Longrightarrow> lo \<noteq> 0 \<Longrightarrow>
   consider_driver geodesic_km round1 c order driver \<noteq> No_coordinates"
  by (simp add: consider_driver_def value_defs Let_def)

lemma consider_driver_in_radius:
  "u_latitude driver = Some la \<Longrightarrow> la \<noteq> 0 \<Longrightarrow> u_longitude driver = Some lo \<Longrightarrow> lo \<noteq> 0 \<Longrightarrow>
   u_radius_km driver = Some r \<Longrightarrow> r \<noteq> 0 \<Longrightarrow>
   (consider_driver geodesic_km round1 c order driver \<noteq> Not_in_radius \<longleftrightarrow>
      geodesic_km (la, lo) c \<le> real_of_int r)"
  by (simp add: consider_driver_def value_defs is_within_radius_def calculate_distance_def
        Let_def)

lemmas matcher_example_defs =
  consider_driver_def check_driver_matches_order_def value_defs Let_def order_1_def driver_1_def
  driver_at_radius_def driver_beyond_radius_def driver_no_floor_def order_no_price_def
  Ufa_coords_def example_km_def is_within_radius_def calculate_distance_def

text \<open>
  C3. An order without coordinates of point A matches no driver. For an order with
  coordinates \<open>c\<close> of point A the result holds exactly the candidates the loop appends.
  A candidate with a stored latitude and longitude, neither of them 0, and a stored
  \<open>radius_km\<close> other than 0 (the bot stores a radius of 1 to 500 km) is not skipped for
  missing coordinates, and it gets past the radius test iff the distance
  \<open>calculate_distance\<close> gives from the driver to point A is at most \<open>radius_km\<close>: a
  driver at exactly \<open>radius_km\<close> kilometres passes, one beyond it does not.
\<close>

theorem find_matching_drivers_radius:
  "(point_a_coords order = None \<longrightarrow>
      find_matching_drivers geodesic_km round1 db order filter_by_group = []) \<and>
   (point_a_coords order = Some c \<longrightarrow>
      set (find_matching_drivers geodesic_km round1 db order filter_by_group) =
        {d. \<exists>u \<in> set (candidate_drivers db order filter_by_group).
               consider_driver geodesic_km round1 c order u = Matches d}) \<and>
   (u_latitude driver = Some la \<and> la \<noteq> 0 \<and> u_longitude driver = Some lo \<and> lo \<noteq> 0 \<and>
    u_radius_km driver = Some r \<and> r \<noteq> 0 \<longrightarrow>
      consider_driver geodesic_km round1 c order driver \<noteq> No_coordinates \<and>
      (consider_driver geodesic_km round1 c order driver \<noteq> Not_in_radius \<longleftrightarrow>
         geodesic_km (la, lo) c \<le> real_of_int r))"
  using find_matching_drivers_no_coords [of order geodesic_km round1 db filter_by_group]
    set_find_matching_drivers [of order c geodesic_km round1 db filter_by_group]
    consider_driver_has_coords [of driver la lo geodesic_km round1 c order]
    consider_driver_in_radius [of driver la lo r geodesic_km round1 c order]
  by blast

theorem find_matching_drivers_radius_witness:
  "point_a_coords order_no_coords = None \<and>
   find_matching_drivers example_km (\<lambda>x. x) db_1 order_no_coords True = [] \<and>
   u_latitude driver_at_radius = Some (547431 / 10000) \<and>
   u_longitude driver_at_radius = Some (549678 / 10000) \<and>
   u_radius_km driver_at_radius = Some 111 \<and>
   example_km (547431 / 10000, 549678 / 10000) Ufa_coords = 111 \<and>
   consider_driver example_km (\<lambda>x. x) Ufa_coords order_1 driver_at_radius \<noteq> No_coordinates \<and>
   consider_driver example_km (\<lambda>x. x) Ufa_coords order_1 driver_at_radius \<noteq> Not_in_radius \<and>
   u_latitude driver_beyond_radius = Some (547431 / 10000) \<and>
   u_longitude driver_beyond_radius = Some (549678 / 10000) \<and>
   u_radius_km driver_beyond_radius = Some 110 \<and>
   consider_driver example_km (\<lambda>x. x) Ufa_coords order_1 driver_beyond_radius = Not_in_radius"
proof -
  have n: "point_a_coords order_no_coords = None"
    by (simp add: order_no_coords_def)
  have h: "u_latitude driver_at_radius = Some (547431 / 10000) \<and> (547431 / 10000 :: real) \<noteq> 0 \<and>
      u_longitude driver_at_radius = Some (549678 / 10000) \<and> (549678 / 10000 :: real) \<noteq> 0 \<and>
      u_radius_km driver_at_radius = Some 111 \<and> (111 :: int) \<noteq> 0"
    by (simp add: driver_at_radius_def driver_1_def)
  have h': "u_latitude driver_beyond_radius = Some (547431 / 10000) \<and> (547431 / 10000 :: real) \<noteq> 0 \<and>
      u_longitude driver_beyond_radius = Some (549678 / 10000) \<and> (549678 / 10000 :: real) \<noteq> 0 \<and>
      u_radius_km driver_beyond_radius = Some 110 \<and> (110 :: int) \<noteq> 0"
    by (simp add: driver_beyond_radius_def driver_1_def)
  have d: "example_km (547431 / 10000, 549678 / 10000) Ufa_coords = 111"
    by (simp add: example_km_def Ufa_coords_def)
  from find_matching_drivers_radius [of order_no_coords example_km "\<lambda>x. x" db_1 True] n
  have e: "find_matching_drivers example_km (\<lambda>x. x) db_1 order_no_coords True = []"
    by blast
  from find_matching_drivers_radius
    [of order_1 example_km "\<lambda>x. x" db_1 True Ufa_coords driver_at_radius
      "547431 / 10000" "549678 / 10000" 111]
    h d
  have a: "consider_driver example_km (\<lambda>x. x) Ufa_coords order_1 driver_at_radius \<noteq> No_coordinates \<and>
      consider_driver example_km (\<lambda>x. x) Ufa_coords order_1 driver_at_radius \<noteq> Not_in_radius"
    by simp
  from find_matching_drivers_radius
    [of order_1 example_km "\<lambda>x. x" db_1 True Ufa_coords driver_beyond_radius
      "547431 / 10000" "549678 / 10000" 110]
    h' d
  have b: "consider_driver example_km (\<lambda>x. x) Ufa_coords order_1 driver_beyond_radius = Not_in_radius"
    by simp
  from n e h h' d a b show ?thesis
    by blast
qed

lemma consider_driver_price:
  "price order \<noteq> Some 0 \<Longrightarrow>
   (consider_driver geodesic_km round1 c order driver = Filtered_by_price \<longleftrightarrow>
     consider_driver geodesic_km round1 c order driver \<noteq> No_coordinates \<and>
     consider_driver geodesic_km round1 c order driver \<noteq> Not_in_radius \<and>
     (\<exists>p m. price order = Some p \<and> u_min_price driver = Some m \<and> m > 0 \<and> p < m))"
  by (auto simp add: consider_driver_def value_defs Let_def split: option.splits)

lemma check_driver_matches_order_price:
  "price order \<noteq> Some 0 \<Longrightarrow> point_a_coords order = Some c \<Longrightarrow>
   consider_driver geodesic_km round1 c order driver \<noteq> No_coordinates \<Longrightarrow>
   consider_driver geodesic_km round1 c order driver \<noteq> Not_in_radius \<Longrightarrow>
   (\<not> fst (check_driver_matches_order geodesic_km round1 driver order) \<longleftrightarrow>
      (\<exists>p m. price order = Some p \<and> u_min_price driver = Some m \<and> m > 0 \<and> p < m))"
  by (auto simp add: consider_driver_def check_driver_matches_order_def value_defs Let_def
        split: option.splits if_splits)

lemma consider_driver_no_price:
  "price order = None \<Longrightarrow> consider_driver geodesic_km round1 c order driver \<noteq> Filtered_by_price"
  by (simp add: consider_driver_def Let_def)

lemma consider_driver_no_floor:
  "u_min_price driver = Some 0 \<Longrightarrow>
   consider_driver geodesic_km round1 c order driver \<noteq> Filtered_by_price"
  by (simp add: consider_driver_def value_defs Let_def split: option.splits)

text \<open>
  C4. The price is absent or an amount other than 0 (the parser sets a price of 500 to
  500000, or none). The loop of \<open>find_matching_drivers\<close> drops a candidate at the
  price test iff the candidate got past the coordinate and radius tests and all three
  hold: the order's price is set, the driver's \<open>min_price\<close> is greater than 0, and the
  price is strictly below it. \<open>check_driver_matches_order\<close> refuses a driver that
  passes the coordinate and radius tests under the same condition. In particular an
  order without a price is never dropped at the price test, a driver whose
  \<open>min_price\<close> is 0 is never dropped at it, whatever the price, and an order priced
  999 is dropped for a driver with a \<open>min_price\<close> of 1000.
\<close>

theorem price_filter_iff:
  "(price order \<noteq> Some 0 \<longrightarrow>
      (consider_driver geodesic_km round1 c order driver = Filtered_by_price \<longleftrightarrow>
         consider_driver geodesic_km round1 c order driver \<noteq> No_coordinates \<and>
         consider_driver geodesic_km round1 c order driver \<noteq> Not_in_radius \<and>
         (\<exists>p m. price order = Some p \<and> u_min_price driver = Some m \<and> m > 0 \<and> p < m))) \<and>
   (price order \<noteq> Some 0 \<and> point_a_coords order = Some c \<and>
    consider_driver geodesic_km round1 c order driver \<noteq> No_coordinates \<and>
    consider_driver geodesic_km round1 c order driver \<noteq> Not_in_radius \<longrightarrow>
      (\<not> fst (check_driver_matches_order geodesic_km round1 driver order) \<longleftrightarrow>
         (\<exists>p m. price order = Some p \<and> u_min_price driver = Some m \<and> m > 0 \<and> p < m))) \<and>
   (price order = None \<longrightarrow>
      consider_driver geodesic_km round1 c order driver \<noteq> Filtered_by_price) \<and>
   (u_min_price driver = Some 0 \<longrightarrow>
      consider_driver geodesic_km round1 c order driver \<noteq> Filtered_by_price) \<and>
   (price order = Some 999 \<and> u_min_price driver = Some 1000 \<and>
    consider_driver geodesic_km round1 c order driver \<noteq> No_coordinates \<and>
    consider_driver geodesic_km round1 c order driver \<noteq> Not_in_radius \<longrightarrow>
      consider_driver geodesic_km round1 c order driver = Filtered_by_price)"
proof -
  have "consider_driver geodesic_km round1 c order driver = Filtered_by_price"
    if "price order = Some 999" "u_min_price driver = Some 1000"
      "consider_driver geodesic_km round1 c order driver \<noteq> No_coordinates"
      "consider_driver geodesic_km round1 c order driver \<noteq> Not_in_radius"
    using consider_driver_price [of order geodesic_km round1 c driver] that by simp
  with consider_driver_price [of order geodesic_km round1 c driver]
    check_driver_matches_order_price [of order c geodesic_km round1 driver]
    consider_driver_no_price [of order geodesic_km round1 c driver]
    consider_driver_no_floor [of driver geodesic_km round1 c order]
  show ?thesis
    by blast
qed

theorem price_filter_iff_witness:
  "price order_1 = Some 999 \<and> price order_1 \<noteq> Some 0 \<and> u_min_price driver_1 = Some 1000 \<and>
   point_a_coords order_1 = Some Ufa_coords \<and>
   consider_driver example_km (\<lambda>x. x) Ufa_coords order_1 driver_1 \<noteq> No_coordinates \<and>
   consider_driver example_km (\<lambda>x. x) Ufa_coords order_1 driver_1 \<noteq> Not_in_radius \<and>
   consider_driver example_km (\<lambda>x. x) Ufa_coords order_1 driver_1 = Filtered_by_price \<and>
   \<not> fst (check_driver_matches_order example_km (\<lambda>x. x) driver_1 order_1) \<and>
   price order_no_price = None \<and>
   consider_driver example_km (\<lambda>x. x) Ufa_coords order_no_price driver_1 \<noteq> Filtered_by_price \<and>
   u_min_price driver_no_floor = Some 0 \<and>
   consider_driver example_km (\<lambda>x. x) Ufa_coords order_1 driver_no_floor \<noteq> Filtered_by_price"
proof -
  have h: "point_a_coords order_1 = Some Ufa_coords \<and>
      consider_driver example_km (\<lambda>x. x) Ufa_coords order_1 driver_1 \<noteq> No_coordinates \<and>
      consider_driver example_km (\<lambda>x. x) Ufa_coords order_1 driver_1 \<noteq> Not_in_radius"
    by (simp add: matcher_example_defs)
  have p: "price order_1 = Some 999 \<and> price order_1 \<noteq> Some 0 \<and> u_min_price driver_1 = Some 1000"
    by (simp add: order_1_def driver_1_def)
  have q: "(999::int) < 1000 \<and> (1000::int) > 0"
    by simp
  have n: "price order_no_price = None"
    by (simp add: order_no_price_def)
  have f: "u_min_price driver_no_floor = Some 0"
    by (simp add: driver_no_floor_def)
  from price_filter_iff [of order_1 example_km "\<lambda>x. x" Ufa_coords driver_1] h p
  have a: "consider_driver example_km (\<lambda>x. x) Ufa_coords order_1 driver_1 = Filtered_by_price"
    by blast
  from price_filter_iff [of order_1 example_km "\<lambda>x. x" Ufa_coords driver_1] h p q
  have b: "\<not> fst (check_driver_matches_order example_km (\<lambda>x. x) driver_1 order_1)"
    by blast
  from price_filter_iff [of order_no_price example_km "\<lambda>x. x" Ufa_coords driver_1] n
  have c: "consider_driver example_km (\<lambda>x. x) Ufa_coords order_no_price driver_1 \<noteq> Filtered_by_price"
    by blast
  from price_filter_iff [of order_1 example_km "\<lambda>x. x" Ufa_coords driver_no_floor] f
  have d: "consider_driver example_km (\<lambda>x. x) Ufa_coords order_1 driver_no_floor \<noteq> Filtered_by_price"
    by blast
  from h p n f a b c d show ?thesis
    by blast
qed

section \<open>Suppressed drivers\<close>

lemma is_user_busy_frame:
  assumes "is_user_busy db now uid = (db0, b)"
  shows "engine db0 = engine db \<and> blacklist db0 = blacklist db \<and>
         order_group_links db0 = order_group_links db \<and>
         order_notifications db0 = order_notifications db"
  using assms by (auto simp add: is_user_busy_def split: if_splits list.splits option.splits)

lemma is_blacklisted_cong:
  "engine db0 = engine db \<Longrightarrow> blacklist db0 = blacklist db \<Longrightarrow>
   is_blacklisted db0 uid a g = is_blacklisted db uid a g"
  by (simp add: is_blacklisted_def)

lemma notify_driver_quiet:
  "is_user_in_quiet_hours db ct uid = Inl e \<Longrightarrow>
   notify_driver self fmt now ct db did uid order oid rk gid km adm =
     \<lparr>out_db = db, out_order = order, out_calls = [], out_raised = Some e\<rparr>"
  "is_user_in_quiet_hours db ct uid = Inr True \<Longrightarrow>
   notify_driver self fmt now ct db did uid order oid rk gid km adm =
     \<lparr>out_db = db, out_order = order, out_calls = [], out_raised = None\<rparr>"
  by (simp_all add: notify_driver_def)

lemma notify_driver_busy:
  "is_user_in_quiet_hours db ct uid = Inr False \<Longrightarrow> snd (is_user_busy db now uid) \<Longrightarrow>
   notify_driver self fmt now ct db did uid order oid rk gid km adm =
     \<lparr>out_db = fst (is_user_busy db now uid), out_order = order, out_calls = [], out_raised = None\<rparr>"
  by (simp add: notify_driver_def Let_def)

lemma notify_driver_blacklisted:
  "is_user_in_quiet_hours db ct uid = Inr False \<Longrightarrow> \<not> snd (is_user_busy db now uid) \<Longrightarrow>
   is_blacklisted (fst (is_user_busy db now uid)) uid (author_id order) gid \<Longrightarrow>
   notify_driver self fmt now ct db did uid order oid rk gid km adm =
     \<lparr>out_db = fst (is_user_busy db now uid), out_order = order, out_calls = [], out_raised = None\<rparr>"
  by (simp add: notify_driver_def Let_def)

lemma notify_driver_passed:
  "is_user_in_quiet_hours db ct uid = Inr False \<Longrightarrow> \<not> snd (is_user_busy db now uid) \<Longrightarrow>
   \<not> is_blacklisted (fst (is_user_busy db now uid)) uid (author_id order) gid \<Longrightarrow>
   notify_driver self fmt now ct db did uid order oid rk gid km adm =
     edit_or_send self fmt now (fst (is_user_busy db now uid)) did uid order oid rk gid km adm"
  by (simp add: notify_driver_def Let_def)

lemma notify_driver_checks:
  assumes "is_user_in_quiet_hours db ct uid \<noteq> Inr False \<or> snd (is_user_busy db now uid) \<or>
           is_blacklisted db uid (author_id order) gid"
  shows "out_calls (notify_driver self fmt now ct db did uid order oid rk gid km adm) = [] \<and>
         order_group_links (out_db (notify_driver self fmt now ct db did uid order oid rk gid km adm)) =
           order_group_links db \<and>
         order_notifications (out_db (notify_driver self fmt now ct db did uid order oid rk gid km adm)) =
           order_notifications db"
proof -
  obtain db0 b where busy: "is_user_busy db now uid = (db0, b)"
    by (cases "is_user_busy db now uid")
  note fr = is_user_busy_frame [OF busy]
  have bl: "is_blacklisted db0 uid (author_id order) gid = is_blacklisted db uid (author_id order) gid"
    using fr by (intro is_blacklisted_cong) simp_all
  show ?thesis
  proof (cases "is_user_in_quiet_hours db ct uid")
    case (Inl e)
    then show ?thesis by (simp add: notify_driver_quiet(1))
  next
    case (Inr q)
    show ?thesis
    proof (cases q)
      case True
      with Inr show ?thesis by (simp add: notify_driver_quiet(2))
    next
      case False
      with Inr have q: "is_user_in_quiet_hours db ct uid = Inr False" by simp
      show ?thesis
      proof (cases b)
        case True
        with busy have "snd (is_user_busy db now uid)" by simp
        from notify_driver_busy [OF q this] busy fr show ?thesis by simp
      next
        case nb: False
        with busy have n: "\<not> snd (is_user_busy db now uid)" by simp
        from assms q n have "is_blacklisted db uid (author_id order) gid" by simp
        with bl busy have "is_blacklisted (fst (is_user_busy db now uid)) uid (author_id order) gid"
          by simp
        from notify_driver_blacklisted [OF q n this] busy fr show ?thesis by simp
      qed
    qed
  qed
qed

lemma filter_distinct_key:
  assumes "distinct (map f xs)" and "x \<in> set xs"
  shows "filter (\<lambda>y. f y = f x) xs = [x]"
  using assms
proof (induction xs)
  case Nil
  then show ?case by simp
next
  case (Cons y ys)
  show ?case
  proof (cases "y = x")
    case True
    with Cons.prems have "f x \<notin> f ` set ys" by simp
    then have "filter (\<lambda>z. f z = f x) ys = []" by (force simp add: filter_empty_conv image_iff)
    with True show ?thesis by simp
  next
    case False
    with Cons.prems have "x \<in> set ys" "f y \<noteq> f x" by auto
    with Cons show ?thesis by simp
  qed
qed

lemma in_quiet_hours_from_row:
  assumes "engine db" and "distinct (map ds_user_id (driver_settings db))"
    and "s \<in> set (driver_settings db)" and "ds_user_id s = uid"
    and "ds_quiet_hours_enabled s = Some True"
    and "ds_quiet_hours_start s = Some start" and "ds_quiet_hours_end s = Some finish"
    and "if start \<le> finish then start \<le> ct \<and> ct \<le> finish else start \<le> ct \<or> ct \<le> finish"
  shows "is_user_in_quiet_hours db ct uid = Inr True"
proof -
  have "filter (\<lambda>y. ds_user_id y = uid) (driver_settings db) = [s]"
    using filter_distinct_key [OF assms(2) assms(3)] assms(4) by simp
  then show ?thesis
    using assms by (simp add: is_user_in_quiet_hours_def)
qed

lemma busy_from_row:
  assumes "engine db" and "distinct (map ds_user_id (driver_settings db))"
    and "s \<in> set (driver_settings db)" and "ds_user_id s = uid"
    and "ds_busy_until s = Some t" and "now < t"
  shows "is_user_busy db now uid = (db, True)"
proof -
  have "filter (\<lambda>y. ds_user_id y = uid) (driver_settings db) = [s]"
    using filter_distinct_key [OF assms(2) assms(3)] assms(4) by simp
  then show ?thesis
    using assms by (simp add: is_user_busy_def)
qed

lemma blacklisted_author_from_row:
  assumes "engine db" and "b \<in> set (blacklist db)" and "bl_user_id b = uid"
    and "bl_block_type b = ascii ''author''" and "bl_blocked_id b = Some a" and "a \<noteq> 0"
  shows "is_blacklisted db uid (Some a) gid"
proof -
  have "b \<in> set (filter (\<lambda>b. bl_block_type b = ascii ''author'' \<and> bl_blocked_id b = Some a)
      (filter (\<lambda>b. bl_user_id b = uid) (blacklist db)))"
    using assms by simp
  then have "filter (\<lambda>b. bl_block_type b = ascii ''author'' \<and> bl_blocked_id b = Some a)
      (filter (\<lambda>b. bl_user_id b = uid) (blacklist db)) \<noteq> []"
    by (metis empty_iff empty_set)
  then show ?thesis
    using assms(1,6) by (simp add: is_blacklisted_def truthy_def Let_def)
qed

lemma blacklisted_group_from_row:
  assumes "engine db" and "b \<in> set (blacklist db)" and "bl_user_id b = uid"
    and "bl_block_type b = ascii ''group''" and "bl_blocked_id b = Some g" and "g \<noteq> 0"
  shows "is_blacklisted db uid aid (Some g)"
proof -
  have "b \<in> set (filter (\<lambda>b. bl_block_type b = ascii ''group'' \<and> bl_blocked_id b = Some g)
      (filter (\<lambda>b. bl_user_id b = uid) (blacklist db)))"
    using assms by simp
  then have "filter (\<lambda>b. bl_block_type b = ascii ''group'' \<and> bl_blocked_id b = Some g)
      (filter (\<lambda>b. bl_user_id b = uid) (blacklist db)) \<noteq> []"
    by (metis empty_iff empty_set)
  then show ?thesis
    using assms(1,6) by (simp add: is_blacklisted_def truthy_def Let_def)
qed

text \<open>
  What the three checks stop. The store has a session and, as the schema requires, at
  most one settings row for a driver. If the driver's row has quiet hours enabled and the
  Moscow time lies in the window (which wraps past midnight when its start is after its
  end), or the row holds a \<open>busy_until\<close> after now, or the driver's blacklist has an
  author row whose \<open>blocked_id\<close> is the order's author id or a group row whose
  \<open>blocked_id\<close> is the group id, then \<open>_notify_driver\<close> calls neither callback,
  and the group links and the notification records are the ones before the call.
\<close>

lemma notify_driver_suppressed_by_id:
  assumes "engine db"
    and "distinct (map ds_user_id (driver_settings db))"
    and "(\<exists>s \<in> set (driver_settings db).
            ds_user_id s = uid \<and> ds_quiet_hours_enabled s = Some True \<and>
            (\<exists>start finish.
               ds_quiet_hours_start s = Some start \<and> ds_quiet_hours_end s = Some finish \<and>
               (if start \<le> finish then start \<le> ct \<and> ct \<le> finish
                else start \<le> ct \<or> ct \<le> finish))) \<or>
         (\<exists>s \<in> set (driver_settings db).
            ds_user_id s = uid \<and> (\<exists>t. ds_busy_until s = Some t \<and> now < t)) \<or>
         (\<exists>b \<in> set (blacklist db).
            bl_user_id b = uid \<and> bl_block_type b = ascii ''author'' \<and>
            (\<exists>a. author_id order = Some a \<and> a \<noteq> 0 \<and> bl_blocked_id b = Some a)) \<or>
         (\<exists>b \<in> set (blacklist db).
            bl_user_id b = uid \<and> bl_block_type b = ascii ''group'' \<and>
            (\<exists>g. gid = Some g \<and> g \<noteq> 0 \<and> bl_blocked_id b = Some g))"
  shows "out_calls (notify_driver self fmt now ct db did uid order oid rk gid km adm) = [] \<and>
         order_group_links
           (out_db (notify_driver self fmt now ct db did uid order oid rk gid km adm)) =
           order_group_links db \<and>
         order_notifications
           (out_db (notify_driver self fmt now ct db did uid order oid rk gid km adm)) =
           order_notifications db"
proof -
  from assms(3) have "is_user_in_quiet_hours db ct uid \<noteq> Inr False \<or>
      snd (is_user_busy db now uid) \<or> is_blacklisted db uid (author_id order) gid"
  proof (elim disjE bexE exE conjE)
    fix s start finish
    assume "s \<in> set (driver_settings db)" "ds_user_id s = uid"
      "ds_quiet_hours_enabled s = Some True"
      "ds_quiet_hours_start s = Some start" "ds_quiet_hours_end s = Some finish"
      "if start \<le> finish then start \<le> ct \<and> ct \<le> finish else start \<le> ct \<or> ct \<le> finish"
    with in_quiet_hours_from_row [OF assms(1) assms(2)]
    have "is_user_in_quiet_hours db ct uid = Inr True"
      by blast
    then show ?thesis
      by simp
  next
    fix s t
    assume "s \<in> set (driver_settings db)" "ds_user_id s = uid" "ds_busy_until s = Some t" "now < t"
    with busy_from_row [OF assms(1) assms(2)] have "is_user_busy db now uid = (db, True)"
      by blast
    then show ?thesis
      by simp
  next
    fix b a
    assume "b \<in> set (blacklist db)" "bl_user_id b = uid" "bl_block_type b = ascii ''author''"
      "author_id order = Some a" "a \<noteq> 0" "bl_blocked_id b = Some a"
    with blacklisted_author_from_row [OF assms(1)] show ?thesis
      by metis
  next
    fix b g
    assume "b \<in> set (blacklist db)" "bl_user_id b = uid" "bl_block_type b = ascii ''group''"
      "gid = Some g" "g \<noteq> 0" "bl_blocked_id b = Some g"
    with blacklisted_group_from_row [OF assms(1)] show ?thesis
      by metis
  qed
  then show ?thesis
    by (rule notify_driver_checks)
qed

text \<open>
  C9 at a blacklist the bot itself writes. Driver 7 has blacklisted the author
  \<open>@spammer\<close> and the group \<open>Taxi\<close> by name; both rows are stored without a
  \<open>blocked_id\<close>, and \<open>is_blacklisted\<close> compares \<open>blocked_id\<close> only. For an
  order of that author in that group \<open>_notify_driver\<close> is not suppressed: it calls
  the send callback once and stores a group link and a notification record.
\<close>

theorem notify_driver_username_blacklist_sends:
  "blacklist db_blacklist = [blacklist_by_username, blacklist_by_title] \<and>
   bl_user_id blacklist_by_username = 7 \<and>
   bl_block_type blacklist_by_username = ascii ''author'' \<and>
   bl_blocked_username blacklist_by_username = author_username order_spammer \<and>
   bl_user_id blacklist_by_title = 7 \<and>
   bl_block_type blacklist_by_title = ascii ''group'' \<and>
   bl_blocked_name blacklist_by_title = group_title order_spammer \<and>
   out_calls (notify_driver (order_matcher send_message_1 edit_message_text_1) fmt_1 one_hour (ascii ''12:00'') db_blacklist 7007 7
     order_spammer 3 route_key_1 (Some (- 1001234567890)) 11 False) =
     [Send_call \<lparr>sc_driver_id = 7007, sc_order_message = original_text order_1,
                  sc_order_link = source_link order_1, sc_group_id = Some (- 1001234567890),
                  sc_message_id = Some 42\<rparr>] \<and>
   order_group_links (out_db (notify_driver (order_matcher send_message_1 edit_message_text_1) fmt_1 one_hour (ascii ''12:00'') db_blacklist
     7007 7 order_spammer 3 route_key_1 (Some (- 1001234567890)) 11 False)) =
     [\<lparr>ogl_id = 1, ogl_route_key = route_key_1, ogl_user_id = 7,
       ogl_group_id = Some (- 1001234567890), ogl_group_title = Some (ascii ''Taxi''),
       ogl_source_link = Some (source_link order_1), ogl_message_id = Some 42,
       ogl_author_id = Some 555, ogl_author_username = Some (ascii ''spammer''),
       ogl_author_first_name = Some (ascii ''Ivan''), ogl_created_at = one_hour\<rparr>] \<and>
   order_notifications (out_db (notify_driver (order_matcher send_message_1 edit_message_text_1) fmt_1 one_hour (ascii ''12:00'')
     db_blacklist 7007 7 order_spammer 3 route_key_1 (Some (- 1001234567890)) 11 False)) =
     [\<lparr>on_id = 1, on_order_id = 3, on_user_id = 7, on_sent_at = Some one_hour,
       on_message_id = Some 901, on_route_key = Some route_key_1\<rparr>]"
proof -
  have rows: "blacklist db_blacklist = [blacklist_by_username, blacklist_by_title] \<and>
      bl_user_id blacklist_by_username = 7 \<and>
      bl_block_type blacklist_by_username = ascii ''author'' \<and>
      bl_blocked_username blacklist_by_username = author_username order_spammer \<and>
      bl_user_id blacklist_by_title = 7 \<and>
      bl_block_type blacklist_by_title = ascii ''group'' \<and>
      bl_blocked_name blacklist_by_title = group_title order_spammer"
    by (simp add: db_blacklist_def empty_db_def blacklist_by_username_def blacklist_by_title_def
          order_spammer_def order_1_def)
  have q: "is_user_in_quiet_hours db_blacklist (ascii ''12:00'') 7 = Inr False"
    by (simp add: is_user_in_quiet_hours_def db_blacklist_def empty_db_def)
  have b: "is_user_busy db_blacklist one_hour 7 = (db_blacklist, False)"
    by (simp add: is_user_busy_def db_blacklist_def empty_db_def)
  have bl: "\<not> is_blacklisted db_blacklist 7 (author_id order_spammer) (Some (- 1001234567890))"
    by (simp add: is_blacklisted_def db_blacklist_def empty_db_def blacklist_by_username_def
          blacklist_by_title_def order_spammer_def order_1_def Let_def)
  have n: "notify_driver (order_matcher send_message_1 edit_message_text_1) fmt_1 one_hour (ascii ''12:00'') db_blacklist 7007 7
      order_spammer 3 route_key_1 (Some (- 1001234567890)) 11 False =
    edit_or_send (order_matcher send_message_1 edit_message_text_1) fmt_1 one_hour db_blacklist 7007 7 order_spammer 3 route_key_1
      (Some (- 1001234567890)) 11 False"
    by (simp add: notify_driver_def q b bl)
  have g: "get_existing_notification db_blacklist one_hour 7 route_key_1 2 = None"
    by (simp add: get_existing_notification_def db_blacklist_def empty_db_def)
  have e: "edit_or_send (order_matcher send_message_1 edit_message_text_1) fmt_1 one_hour db_blacklist 7007 7 order_spammer 3 route_key_1
      (Some (- 1001234567890)) 11 False =
    send_new (order_matcher send_message_1 edit_message_text_1) fmt_1 one_hour db_blacklist 7007 7 order_spammer 3 route_key_1
      (Some (- 1001234567890)) 11 False []"
    by (simp add: edit_or_send_def g existing_handle_def)
  define link where "link =
      \<lparr>ogl_id = 1, ogl_route_key = route_key_1, ogl_user_id = 7,
        ogl_group_id = Some (- 1001234567890), ogl_group_title = Some (ascii ''Taxi''),
        ogl_source_link = Some (source_link order_1), ogl_message_id = Some 42,
        ogl_author_id = Some 555, ogl_author_username = Some (ascii ''spammer''),
        ogl_author_first_name = Some (ascii ''Ivan''), ogl_created_at = one_hour\<rparr>"
  define db1 where "db1 = db_blacklist\<lparr>order_group_links := [link]\<rparr>"
  have a: "add_order_group_link db_blacklist one_hour
      (link_args_of route_key_1 7 (Some (- 1001234567890)) order_spammer) = (db1, Some link)"
    by (simp add: add_order_group_link_def link_args_of_def db_blacklist_def empty_db_def
          order_spammer_def order_1_def or_else_str_def truthy_str_def next_id_def Let_def
          ascii_def db1_def link_def)
  have db1: "engine db1" "order_notifications db1 = []" "order_group_links db1 = [link]"
    by (simp_all add: db1_def db_blacklist_def empty_db_def)
  have l: "get_order_group_links db1 route_key_1 7 = [link]"
    by (simp add: get_order_group_links_def db1 link_def)
  have o: "adopt_author [link] order_spammer = order_spammer"
    by (simp add: adopt_author_def get_author_from_links_def truthy_def or_else_str_def
          truthy_str_def link_def order_spammer_def order_1_def ascii_def)
  have f: "original_text order_spammer = original_text order_1"
    "source_link order_spammer = source_link order_1" "message_id order_spammer = Some 42"
    by (simp_all add: order_spammer_def order_1_def)
  have v: "save_order_notification db1 one_hour 3 7 (Some 901) (Some route_key_1) =
      (db1\<lparr>order_notifications :=
         [\<lparr>on_id = 1, on_order_id = 3, on_user_id = 7, on_sent_at = Some one_hour,
           on_message_id = Some 901, on_route_key = Some route_key_1\<rparr>]\<rparr>,
       Some \<lparr>on_id = 1, on_order_id = 3, on_user_id = 7, on_sent_at = Some one_hour,
           on_message_id = Some 901, on_route_key = Some route_key_1\<rparr>)"
    by (simp add: save_order_notification_def db1 next_id_def Let_def)
  have s: "send_new (order_matcher send_message_1 edit_message_text_1) fmt_1 one_hour db_blacklist 7007 7 order_spammer 3 route_key_1
      (Some (- 1001234567890)) 11 False [] =
    \<lparr>out_db = db1\<lparr>order_notifications :=
         [\<lparr>on_id = 1, on_order_id = 3, on_user_id = 7, on_sent_at = Some one_hour,
           on_message_id = Some 901, on_route_key = Some route_key_1\<rparr>]\<rparr>,
     out_order = order_spammer,
     out_calls = [Send_call \<lparr>sc_driver_id = 7007, sc_order_message = original_text order_1,
                  sc_order_link = source_link order_1, sc_group_id = Some (- 1001234567890),
                  sc_message_id = Some 42\<rparr>],
     out_raised = None\<rparr>"
    by (simp add: send_new_def a l o f v order_matcher_def send_order_notification_def
          send_message_1_def fmt_1_def admin_tag_def truthy_def Let_def)
  have r: "order_group_links (db1\<lparr>order_notifications :=
         [\<lparr>on_id = 1, on_order_id = 3, on_user_id = 7, on_sent_at = Some one_hour,
           on_message_id = Some 901, on_route_key = Some route_key_1\<rparr>]\<rparr>) = [link]"
    by (simp add: db1)
  from rows show ?thesis
    by (simp add: n e s r) (simp add: link_def)
qed

section \<open>Edit or send: the two-hour window\<close>

lemma add_order_group_link_frame:
  "engine (fst (add_order_group_link db now a)) = engine db \<and>
   order_notifications (fst (add_order_group_link db now a)) = order_notifications db"
  by (simp add: add_order_group_link_def Let_def split: list.splits)

lemma latest_mem: "latest b ns \<in> set (b # ns)"
  by (induction ns arbitrary: b) auto

lemma latest_ge_start: "or_else (on_sent_at b) 0 \<le> or_else (on_sent_at (latest b ns)) 0"
proof (induction ns arbitrary: b)
  case Nil
  then show ?case by simp
next
  case (Cons n ns)
  let ?b' = "if or_else (on_sent_at n) 0 > or_else (on_sent_at b) 0 then n else b"
  have "or_else (on_sent_at b) 0 \<le> or_else (on_sent_at ?b') 0" by simp
  also have "\<dots> \<le> or_else (on_sent_at (latest ?b' ns)) 0" by (rule Cons.IH)
  finally show ?case by simp
qed

lemma latest_max:
  "n \<in> set (b # ns) \<Longrightarrow> or_else (on_sent_at n) 0 \<le> or_else (on_sent_at (latest b ns)) 0"
proof (induction ns arbitrary: b)
  case Nil
  then show ?case by simp
next
  case (Cons x xs)
  let ?b' = "if or_else (on_sent_at x) 0 > or_else (on_sent_at b) 0 then x else b"
  from Cons.prems consider "n = b" | "n = x" | "n \<in> set xs" by auto
  then show ?case
  proof cases
    case 1
    have "or_else (on_sent_at b) 0 \<le> or_else (on_sent_at ?b') 0" by simp
    also have "\<dots> \<le> or_else (on_sent_at (latest ?b' xs)) 0" by (rule latest_ge_start)
    finally show ?thesis using 1 by simp
  next
    case 2
    have "or_else (on_sent_at x) 0 \<le> or_else (on_sent_at ?b') 0" by simp
    also have "\<dots> \<le> or_else (on_sent_at (latest ?b' xs)) 0" by (rule latest_ge_start)
    finally show ?thesis using 2 by simp
  next
    case 3
    then have "n \<in> set (?b' # xs)" by simp
    from Cons.IH [OF this] show ?thesis by simp
  qed
qed

lemma get_existing_notification_Some:
  assumes "engine db"
    and "filter (fresh_notification (now - timedelta_hours h) uid rk) (order_notifications db) \<noteq> []"
  shows "\<exists>n \<in> set (filter (fresh_notification (now - timedelta_hours h) uid rk) (order_notifications db)).
           get_existing_notification db now uid rk h = Some n \<and>
           (\<forall>n' \<in> set (filter (fresh_notification (now - timedelta_hours h) uid rk) (order_notifications db)).
              or_else (on_sent_at n') 0 \<le> or_else (on_sent_at n) 0)"
proof -
  let ?F = "filter (fresh_notification (now - timedelta_hours h) uid rk) (order_notifications db)"
  from assms(2) obtain x xs where F: "?F = x # xs" by (cases ?F) auto
  then have g: "get_existing_notification db now uid rk h = Some (latest x xs)"
    using assms(1) by (simp add: get_existing_notification_def Let_def)
  have "latest x xs \<in> set ?F" using latest_mem [of x xs] F by simp
  moreover have "\<forall>n' \<in> set ?F. or_else (on_sent_at n') 0 \<le> or_else (on_sent_at (latest x xs)) 0"
    using latest_max [of _ x xs] F by simp
  ultimately show ?thesis using g by blast
qed

lemma get_existing_notification_None:
  assumes "filter (fresh_notification (now - timedelta_hours h) uid rk) (order_notifications db) = []"
  shows "get_existing_notification db now uid rk h = None"
  using assms by (simp add: get_existing_notification_def Let_def)

lemma edit_or_send_edit:
  assumes "bot_edit_func self = Some edit" and "\<And>c. \<exists>b. edit c = Inr b"
    and "get_existing_notification db now uid rk 2 = Some n"
    and "on_message_id n = Some m" and "m \<noteq> 0"
  shows "\<exists>c. out_calls (edit_or_send self fmt now db did uid order oid rk gid km adm) = [Edit_call c] \<and>
           ec_message_id c = m \<and> ec_driver_id c = did \<and>
           order_notifications (out_db (edit_or_send self fmt now db did uid order oid rk gid km adm)) =
             order_notifications db"
proof -
  have h: "existing_handle (get_existing_notification db now uid rk 2) = Some m"
    using assms(3-5) by (simp add: existing_handle_def truthy_def)
  have nr: "\<And>c e. edit c \<noteq> Inl e"
    using assms(2) by (metis sum.distinct(1))
  show ?thesis
    using h assms(1) nr add_order_group_link_frame
    by (auto simp add: edit_or_send_def Let_def split: sum.splits)
qed

lemma save_order_notification_appends:
  "engine db \<Longrightarrow>
   order_notifications (fst (save_order_notification db now oid uid m rk)) =
     order_notifications db @
       [\<lparr>on_id = next_id (map on_id (order_notifications db)), on_order_id = oid,
         on_user_id = uid, on_sent_at = Some now, on_message_id = m, on_route_key = rk\<rparr>]"
  by (simp add: save_order_notification_def Let_def)

lemma send_new_sends:
  assumes "engine db" and "bot_send_func self = Some send"
  shows "\<exists>c. out_calls (send_new self fmt now db did uid order oid rk gid km adm []) = [Send_call c] \<and>
           sc_driver_id c = did \<and>
           (\<forall>m. send c = Inr (Some m) \<and> m \<noteq> 0 \<longrightarrow>
              order_notifications (out_db (send_new self fmt now db did uid order oid rk gid km adm [])) =
                order_notifications db @
                  [\<lparr>on_id = next_id (map on_id (order_notifications db)), on_order_id = oid,
                    on_user_id = uid, on_sent_at = Some now, on_message_id = Some m,
                    on_route_key = Some rk\<rparr>])"
proof -
  define db1 where "db1 = fst (add_order_group_link db now (link_args_of rk uid gid order))"
  define links where "links = get_order_group_links db1 rk uid"
  define order1 where "order1 = adopt_author links order"
  define c where "c = \<lparr>sc_driver_id = did,
      sc_order_message = admin_tag adm (fmt db1 order1 km links uid),
      sc_order_link = source_link order1, sc_group_id = gid, sc_message_id = message_id order1\<rparr>"
  have fr: "engine db1" "order_notifications db1 = order_notifications db"
    using add_order_group_link_frame [of db now "link_args_of rk uid gid order"] assms(1)
    by (simp_all add: db1_def)
  have calls: "out_calls (send_new self fmt now db did uid order oid rk gid km adm []) = [Send_call c]"
    using assms(2)
    by (simp add: send_new_def Let_def db1_def [symmetric] links_def [symmetric]
          order1_def [symmetric] c_def [symmetric] split: sum.splits)
  have stored: "order_notifications (out_db (send_new self fmt now db did uid order oid rk gid km adm [])) =
      order_notifications db @
        [\<lparr>on_id = next_id (map on_id (order_notifications db)), on_order_id = oid,
          on_user_id = uid, on_sent_at = Some now, on_message_id = Some m,
          on_route_key = Some rk\<rparr>]"
    if m: "send c = Inr (Some m)" "m \<noteq> 0" for m
  proof -
    have "send_new self fmt now db did uid order oid rk gid km adm [] =
        \<lparr>out_db = fst (save_order_notification db1 now oid uid (Some m) (Some rk)),
         out_order = order1, out_calls = [Send_call c], out_raised = None\<rparr>"
      using assms(2) m
      by (simp add: send_new_def Let_def truthy_def db1_def [symmetric] links_def [symmetric]
            order1_def [symmetric] c_def [symmetric])
    then show ?thesis
      using fr save_order_notification_appends [OF fr(1), of now oid uid "Some m" "Some rk"]
      by simp
  qed
  have "sc_driver_id c = did"
    by (simp add: c_def)
  with calls stored show ?thesis
    by blast
qed

lemma edit_or_send_send:
  assumes "engine db" and "bot_send_func self = Some send"
    and "get_existing_notification db now uid rk 2 = None"
  shows "\<exists>c. out_calls (edit_or_send self fmt now db did uid order oid rk gid km adm) = [Send_call c] \<and>
           sc_driver_id c = did \<and>
           (\<forall>m. send c = Inr (Some m) \<and> m \<noteq> 0 \<longrightarrow>
              order_notifications (out_db (edit_or_send self fmt now db did uid order oid rk gid km adm)) =
                order_notifications db @
                  [\<lparr>on_id = next_id (map on_id (order_notifications db)), on_order_id = oid,
                    on_user_id = uid, on_sent_at = Some now, on_message_id = Some m,
                    on_route_key = Some rk\<rparr>])"
proof -
  have "edit_or_send self fmt now db did uid order oid rk gid km adm =
      send_new self fmt now db did uid order oid rk gid km adm []"
    using assms(3) by (simp add: edit_or_send_def Let_def existing_handle_def)
  with send_new_sends [OF assms(1-2)] show ?thesis
    by simp
qed

lemma get_existing_notification_cong:
  "engine db0 = engine db \<Longrightarrow> order_notifications db0 = order_notifications db \<Longrightarrow>
   get_existing_notification db0 now uid rk h = get_existing_notification db now uid rk h"
  by (simp add: get_existing_notification_def)

lemma notify_driver_not_suppressed:
  assumes "is_user_in_quiet_hours db ct uid = Inr False"
    and "\<not> snd (is_user_busy db now uid)"
    and "\<not> is_blacklisted db uid (author_id order) gid"
  shows "\<exists>db0. engine db0 = engine db \<and> order_notifications db0 = order_notifications db \<and>
           notify_driver self fmt now ct db did uid order oid rk gid km adm =
             edit_or_send self fmt now db0 did uid order oid rk gid km adm"
proof -
  obtain db0 b where busy: "is_user_busy db now uid = (db0, b)"
    by (cases "is_user_busy db now uid")
  note fr = is_user_busy_frame [OF busy]
  have "is_blacklisted db0 uid (author_id order) gid = is_blacklisted db uid (author_id order) gid"
    using fr by (intro is_blacklisted_cong) simp_all
  with assms(3) busy have "\<not> is_blacklisted (fst (is_user_busy db now uid)) uid (author_id order) gid"
    by simp
  from notify_driver_passed [OF assms(1) assms(2) this] busy fr show ?thesis
    by auto
qed

lemma send_new_handles:
  assumes "\<forall>n \<in> set (order_notifications db). on_message_id n \<noteq> Some 0"
  shows "\<forall>n \<in> set (order_notifications
           (out_db (send_new self fmt now db did uid order oid rk gid km adm calls))).
           on_message_id n \<noteq> Some 0"
  using assms add_order_group_link_frame [of db now "link_args_of rk uid gid order"]
  by (auto simp add: send_new_def Let_def save_order_notification_def truthy_def
        split: option.splits sum.splits)

lemma edit_or_send_handles:
  assumes "\<forall>n \<in> set (order_notifications db). on_message_id n \<noteq> Some 0"
  shows "\<forall>n \<in> set (order_notifications
           (out_db (edit_or_send self fmt now db did uid order oid rk gid km adm))).
           on_message_id n \<noteq> Some 0"
proof -
  have a: "\<forall>n \<in> set (order_notifications
      (fst (add_order_group_link db now (link_args_of rk uid gid order)))). on_message_id n \<noteq> Some 0"
    using assms add_order_group_link_frame [of db now "link_args_of rk uid gid order"] by simp
  show ?thesis
    using assms a send_new_handles
    by (simp add: edit_or_send_def Let_def split: option.splits sum.splits)
qed

lemma notify_driver_handles:
  assumes "\<forall>n \<in> set (order_notifications db). on_message_id n \<noteq> Some 0"
  shows "\<forall>n \<in> set (order_notifications
           (out_db (notify_driver self fmt now ct db did uid order oid rk gid km adm))).
           on_message_id n \<noteq> Some 0"
proof -
  obtain db0 b where busy: "is_user_busy db now uid = (db0, b)"
    by (cases "is_user_busy db now uid")
  from is_user_busy_frame [OF busy] assms
  have "\<forall>n \<in> set (order_notifications db0). on_message_id n \<noteq> Some 0"
    by simp
  with assms busy edit_or_send_handles show ?thesis
    by (simp add: notify_driver_def Let_def split: sum.splits)
qed

lemma order_matcher_callbacks:
  "bot_edit_func (order_matcher send_message edit_message_text) =
     Some (edit_order_notification edit_message_text)"
  "bot_send_func (order_matcher send_message edit_message_text) =
     Some (send_order_notification send_message)"
  "\<And>c. \<exists>b. edit_order_notification edit_message_text c = Inr b"
  "\<And>c m. send_order_notification send_message c = Inr (Some m) \<longleftrightarrow> send_message c = Inr m"
  by (auto simp add: order_matcher_def edit_order_notification_def send_order_notification_def
        split: sum.splits)

text \<open>
  C1, for the matcher \<open>main.py\<close> builds, whatever the Bot API does. A session is
  available, none of the three suppression checks fires for the driver, and no stored
  notification has the handle 0 (a record is stored only with the handle a send
  returned, and only if that is not 0; the call keeps it so). If some notification row
  of the driver for the route key with a message handle was sent at most two hours
  before now, then exactly one callback call is made: an edit, for that driver, of the
  handle of the most recent such row, and the notification rows stay as they were. If
  there is no such row, then exactly one callback call is made, a send to that driver,
  and when the Bot API returns the \<open>message_id\<close> of the new message, one notification
  row is appended: for the driver and the route key, sent now, holding that handle.
\<close>

theorem notify_driver_edit_or_send:
  assumes "engine db"
    and "is_user_in_quiet_hours db ct uid = Inr False"
    and "\<not> snd (is_user_busy db now uid)"
    and "\<not> is_blacklisted db uid (author_id order) gid"
    and "\<forall>n \<in> set (order_notifications db). on_message_id n \<noteq> Some 0"
  shows
    "((\<exists>n \<in> set (order_notifications db). fresh_notification (now - 7200000000) uid rk n) \<longrightarrow>
        (\<exists>n \<in> set (order_notifications db). \<exists>c t.
           fresh_notification (now - 7200000000) uid rk n \<and> on_sent_at n = Some t \<and>
           (\<forall>n' \<in> set (order_notifications db). \<forall>t'.
              fresh_notification (now - 7200000000) uid rk n' \<and> on_sent_at n' = Some t' \<longrightarrow>
                t' \<le> t) \<and>
           out_calls (notify_driver (order_matcher send_message edit_message_text) fmt now ct db
             did uid order oid rk gid km adm) = [Edit_call c] \<and>
           on_message_id n = Some (ec_message_id c) \<and> ec_driver_id c = did \<and>
           order_notifications
             (out_db (notify_driver (order_matcher send_message edit_message_text) fmt now ct db
                did uid order oid rk gid km adm)) =
             order_notifications db)) \<and>
     ((\<forall>n \<in> set (order_notifications db). \<not> fresh_notification (now - 7200000000) uid rk n) \<longrightarrow>
        (\<exists>c.
           out_calls (notify_driver (order_matcher send_message edit_message_text) fmt now ct db
             did uid order oid rk gid km adm) = [Send_call c] \<and>
           sc_driver_id c = did \<and>
           (\<forall>m. send_message c = Inr m \<and> m \<noteq> 0 \<longrightarrow>
              order_notifications
                (out_db (notify_driver (order_matcher send_message edit_message_text) fmt now ct
                   db did uid order oid rk gid km adm)) =
                order_notifications db @
                  [\<lparr>on_id = next_id (map on_id (order_notifications db)), on_order_id = oid,
                    on_user_id = uid, on_sent_at = Some now, on_message_id = Some m,
                    on_route_key = Some rk\<rparr>]))) \<and>
     (\<forall>n \<in> set (order_notifications
         (out_db (notify_driver (order_matcher send_message edit_message_text) fmt now ct db
            did uid order oid rk gid km adm))). on_message_id n \<noteq> Some 0)"
proof -
  let ?self = "order_matcher send_message edit_message_text"
  let ?r = "notify_driver ?self fmt now ct db did uid order oid rk gid km adm"
  from notify_driver_not_suppressed [OF assms(2-4)] obtain db0 where
    db0: "engine db0 = engine db" "order_notifications db0 = order_notifications db"
      "?r = edit_or_send ?self fmt now db0 did uid order oid rk gid km adm"
    by blast
  have e0: "engine db0"
    using db0(1) assms(1) by simp
  have cut: "now - timedelta_hours 2 = now - 7200000000"
    by (simp add: timedelta_hours_def)
  let ?fresh = "fresh_notification (now - 7200000000) uid rk"
  let ?F = "filter ?fresh (order_notifications db)"
  have edit_part: "\<exists>n \<in> set (order_notifications db). \<exists>c t.
           ?fresh n \<and> on_sent_at n = Some t \<and>
           (\<forall>n' \<in> set (order_notifications db). \<forall>t'.
              ?fresh n' \<and> on_sent_at n' = Some t' \<longrightarrow> t' \<le> t) \<and>
           out_calls ?r = [Edit_call c] \<and>
           on_message_id n = Some (ec_message_id c) \<and> ec_driver_id c = did \<and>
           order_notifications (out_db ?r) = order_notifications db"
    if ex: "\<exists>n \<in> set (order_notifications db). ?fresh n"
  proof -
    from ex have "?F \<noteq> []"
      by (auto simp add: filter_empty_conv)
    then have "filter (fresh_notification (now - timedelta_hours 2) uid rk) (order_notifications db0) \<noteq> []"
      using cut db0(2) by simp
    from get_existing_notification_Some [OF e0 this] obtain n where
      n: "n \<in> set ?F" "get_existing_notification db0 now uid rk 2 = Some n"
        "\<forall>n' \<in> set ?F. or_else (on_sent_at n') 0 \<le> or_else (on_sent_at n) 0"
      using cut db0(2) by auto
    from n(1) have fn: "n \<in> set (order_notifications db)" "?fresh n"
      by simp_all
    from fn(2) obtain m t where m: "on_message_id n = Some m" and t: "on_sent_at n = Some t"
      by (auto simp add: fresh_notification_def split: option.splits)
    from m assms(5) fn(1) have "m \<noteq> 0"
      by auto
    have latest: "t' \<le> t" if "n' \<in> set (order_notifications db)" "?fresh n'"
      "on_sent_at n' = Some t'" for n' t'
    proof -
      from that have "n' \<in> set ?F"
        by simp
      with n(3) have "or_else (on_sent_at n') 0 \<le> or_else (on_sent_at n) 0"
        by blast
      with that(3) t show ?thesis
        by (simp add: or_else_def split: if_splits)
    qed
    from edit_or_send_edit [OF order_matcher_callbacks(1) order_matcher_callbacks(3) n(2) m \<open>m \<noteq> 0\<close>]
    obtain c where "out_calls (edit_or_send ?self fmt now db0 did uid order oid rk gid km adm) = [Edit_call c]"
      "ec_message_id c = m" "ec_driver_id c = did"
      "order_notifications (out_db (edit_or_send ?self fmt now db0 did uid order oid rk gid km adm)) =
         order_notifications db0"
      by blast
    with fn m t latest db0 show ?thesis
      by (intro bexI [of _ n] exI [of _ c] exI [of _ t]) auto
  qed
  have send_part: "\<exists>c. out_calls ?r = [Send_call c] \<and> sc_driver_id c = did \<and>
           (\<forall>m. send_message c = Inr m \<and> m \<noteq> 0 \<longrightarrow>
              order_notifications (out_db ?r) =
                order_notifications db @
                  [\<lparr>on_id = next_id (map on_id (order_notifications db)), on_order_id = oid,
                    on_user_id = uid, on_sent_at = Some now, on_message_id = Some m,
                    on_route_key = Some rk\<rparr>])"
    if no: "\<forall>n \<in> set (order_notifications db). \<not> ?fresh n"
  proof -
    from no have "filter (fresh_notification (now - timedelta_hours 2) uid rk) (order_notifications db0) = []"
      using cut db0(2) by (simp add: filter_empty_conv)
    then have g: "get_existing_notification db0 now uid rk 2 = None"
      by (rule get_existing_notification_None)
    from edit_or_send_send [OF e0 order_matcher_callbacks(2) g]
    show ?thesis
      using db0 by (simp add: order_matcher_callbacks(4))
  qed
  from edit_part send_part notify_driver_handles [OF assms(5)] show ?thesis
    by blast
qed

lemmas notify_example_defs =
  db_fresh_def empty_db_def notification_1_def notification_2_def route_key_1_def
  one_hour_def three_hours_def order_1_def

theorem notify_driver_edit_or_send_witness:
  "engine db_fresh \<and>
   is_user_in_quiet_hours db_fresh (ascii ''12:00'') 7 = Inr False \<and>
   \<not> snd (is_user_busy db_fresh one_hour 7) \<and>
   \<not> is_blacklisted db_fresh 7 (author_id order_1) (Some (- 1001234567890)) \<and>
   order_notifications db_fresh = [notification_1, notification_2] \<and>
   on_message_id notification_1 = Some 900 \<and> on_sent_at notification_1 = Some 0 \<and>
   on_message_id notification_2 = Some 905 \<and> on_sent_at notification_2 = Some 1800000000 \<and>
   fresh_notification (one_hour - 7200000000) 7 route_key_1 notification_1 \<and>
   fresh_notification (one_hour - 7200000000) 7 route_key_1 notification_2 \<and>
   (\<exists>c. out_calls (notify_driver (order_matcher send_message_1 edit_message_text_1) fmt_1 one_hour
            (ascii ''12:00'') db_fresh 7007 7 order_1 3 route_key_1 (Some (- 1001234567890)) 11
            False) = [Edit_call c] \<and>
        ec_message_id c = 905 \<and> ec_driver_id c = 7007) \<and>
   order_notifications (out_db (notify_driver (order_matcher send_message_1 edit_message_text_1)
     fmt_1 one_hour (ascii ''12:00'') db_fresh 7007 7 order_1 3 route_key_1
     (Some (- 1001234567890)) 11 False)) = [notification_1, notification_2] \<and>
   \<not> fresh_notification (three_hours - 7200000000) 7 route_key_1 notification_1 \<and>
   \<not> fresh_notification (three_hours - 7200000000) 7 route_key_1 notification_2 \<and>
   (\<exists>c. out_calls (notify_driver (order_matcher send_message_1 edit_message_text_1) fmt_1
            three_hours (ascii ''12:00'') db_fresh 7007 7 order_1 3 route_key_1
            (Some (- 1001234567890)) 11 False) = [Send_call c] \<and>
        sc_driver_id c = 7007 \<and> send_message_1 c = Inr 901) \<and>
   order_notifications (out_db (notify_driver (order_matcher send_message_1 edit_message_text_1)
     fmt_1 three_hours (ascii ''12:00'') db_fresh 7007 7 order_1 3 route_key_1
     (Some (- 1001234567890)) 11 False)) =
     [notification_1, notification_2,
      \<lparr>on_id = 3, on_order_id = 3, on_user_id = 7, on_sent_at = Some three_hours,
        on_message_id = Some 901, on_route_key = Some route_key_1\<rparr>]"
proof -
  let ?self = "order_matcher send_message_1 edit_message_text_1"
  let ?gid = "Some (- 1001234567890) :: int option"
  have e: "engine db_fresh"
    by (simp add: notify_example_defs)
  have q: "is_user_in_quiet_hours db_fresh (ascii ''12:00'') 7 = Inr False"
    by (simp add: is_user_in_quiet_hours_def notify_example_defs)
  have b1: "\<not> snd (is_user_busy db_fresh one_hour 7)"
    and b3: "\<not> snd (is_user_busy db_fresh three_hours 7)"
    by (simp_all add: is_user_busy_def notify_example_defs)
  have bl: "\<not> is_blacklisted db_fresh 7 (author_id order_1) ?gid"
    by (simp add: is_blacklisted_def notify_example_defs Let_def)
  have ns: "order_notifications db_fresh = [notification_1, notification_2]"
    by (simp add: db_fresh_def empty_db_def)
  have v: "on_message_id notification_1 = Some 900" "on_sent_at notification_1 = Some 0"
    "on_message_id notification_2 = Some 905" "on_sent_at notification_2 = Some 1800000000"
    by (simp_all add: notification_1_def notification_2_def)
  have nz: "\<forall>n \<in> set (order_notifications db_fresh). on_message_id n \<noteq> Some 0"
    by (simp add: ns v)
  have f1: "fresh_notification (one_hour - 7200000000) 7 route_key_1 notification_1"
    "fresh_notification (one_hour - 7200000000) 7 route_key_1 notification_2"
    and f3: "\<not> fresh_notification (three_hours - 7200000000) 7 route_key_1 notification_1"
    "\<not> fresh_notification (three_hours - 7200000000) 7 route_key_1 notification_2"
    by (simp_all add: fresh_notification_def notify_example_defs)
  note at_1 = notify_driver_edit_or_send [OF e q b1 bl nz, of route_key_1 send_message_1
      edit_message_text_1 fmt_1 7007 3 11 False]
  note at_3 = notify_driver_edit_or_send [OF e q b3 bl nz, of route_key_1 send_message_1
      edit_message_text_1 fmt_1 7007 3 11 False]
  let ?r1 = "notify_driver ?self fmt_1 one_hour (ascii ''12:00'') db_fresh 7007 7 order_1 3
      route_key_1 ?gid 11 False"
  let ?r3 = "notify_driver ?self fmt_1 three_hours (ascii ''12:00'') db_fresh 7007 7 order_1 3
      route_key_1 ?gid 11 False"
  from at_1 f1 ns obtain n c t where
    n: "n \<in> set (order_notifications db_fresh)" "on_sent_at n = Some t"
      "\<forall>n' \<in> set (order_notifications db_fresh). \<forall>t'.
         fresh_notification (one_hour - 7200000000) 7 route_key_1 n' \<and> on_sent_at n' = Some t' \<longrightarrow>
           t' \<le> t"
      "out_calls ?r1 = [Edit_call c]" "on_message_id n = Some (ec_message_id c)"
      "ec_driver_id c = 7007" "order_notifications (out_db ?r1) = order_notifications db_fresh"
    by auto
  from n(3) f1(2) v(4) ns have "1800000000 \<le> t"
    by simp
  with n(1,2) ns v(2) have "n = notification_2"
    by auto
  with n(5) v(3) have "ec_message_id c = 905"
    by simp
  with n(4,6) have w1: "\<exists>c. out_calls ?r1 = [Edit_call c] \<and> ec_message_id c = 905 \<and>
      ec_driver_id c = 7007"
    by blast
  from n(7) ns have w2: "order_notifications (out_db ?r1) = [notification_1, notification_2]"
    by simp
  from at_3 f3 ns obtain c3 where
    c3: "out_calls ?r3 = [Send_call c3]" "sc_driver_id c3 = 7007"
      "\<forall>m. send_message_1 c3 = Inr m \<and> m \<noteq> 0 \<longrightarrow>
         order_notifications (out_db ?r3) =
           order_notifications db_fresh @
             [\<lparr>on_id = next_id (map on_id (order_notifications db_fresh)), on_order_id = 3,
               on_user_id = 7, on_sent_at = Some three_hours, on_message_id = Some m,
               on_route_key = Some route_key_1\<rparr>]"
    by auto
  have s: "send_message_1 c3 = Inr 901"
    by (simp add: send_message_1_def)
  with c3(1,2) have w3: "\<exists>c. out_calls ?r3 = [Send_call c] \<and> sc_driver_id c = 7007 \<and>
      send_message_1 c = Inr 901"
    by blast
  from c3(3) s have "order_notifications (out_db ?r3) =
      order_notifications db_fresh @
        [\<lparr>on_id = next_id (map on_id (order_notifications db_fresh)), on_order_id = 3,
          on_user_id = 7, on_sent_at = Some three_hours, on_message_id = Some 901,
          on_route_key = Some route_key_1\<rparr>]"
    by simp
  then have w4: "order_notifications (out_db ?r3) =
     [notification_1, notification_2,
      \<lparr>on_id = 3, on_order_id = 3, on_user_id = 7, on_sent_at = Some three_hours,
        on_message_id = Some 901, on_route_key = Some route_key_1\<rparr>]"
    by (simp add: ns next_id_def notification_1_def notification_2_def)
  from e q b1 bl ns v f1 f3 w1 w2 w3 w4 show ?thesis
    by blast
qed

section \<open>Deduplication across the fleet\<close>

lemma order_key_order_1: "order_key order_1 = ascii ''-1001234567890_42''"
  by (simp add: order_key_def order_1_def truthy_def or_else_def py_str_int_def digits_of.simps ascii_def)

lemma add_first_ok: "set_add_ok add_first"
  by (simp add: set_add_ok_def add_first_def)

lemma handle_order_seen:
  "order_key order \<in> set (processed_orders self) \<Longrightarrow> handle_order set_add self order = (self, None)"
  by (simp add: handle_order_def)

lemma handle_order_new:
  assumes "order_key order \<notin> set (processed_orders self)"
  shows "snd (handle_order set_add self order) = (if has_callback self then Some order else None)"
  using assms by (simp add: handle_order_def Let_def)

lemma filter_not_take:
  "distinct xs \<Longrightarrow> filter (\<lambda>k. k \<notin> set (take n xs)) xs = drop n xs"
proof (induction xs arbitrary: n)
  case Nil
  then show ?case by simp
next
  case (Cons x xs)
  show ?case
  proof (cases n)
    case 0
    then show ?thesis by simp
  next
    case (Suc m)
    from Cons.prems have d: "distinct xs" "x \<notin> set xs" by simp_all
    have "filter (\<lambda>k. k \<notin> set (take n (x # xs))) (x # xs) =
        filter (\<lambda>k. k \<noteq> x \<and> k \<notin> set (take m xs)) xs"
      using Suc by simp
    also have "\<dots> = filter (\<lambda>k. k \<notin> set (take m xs)) xs"
      using d(2) by (intro filter_cong) auto
    also have "\<dots> = drop m xs" using Cons.IH [OF d(1)] .
    finally show ?thesis using Suc by simp
  qed
qed

lemma handle_order_processed:
  assumes "set_add_ok set_add" and "distinct (processed_orders self)"
    and "order_key order \<notin> set (processed_orders self)"
  shows "processed_orders (fst (handle_order set_add self order)) =
     (if length (processed_orders self) \<ge> 10000
      then drop 5000 (set_add (processed_orders self) (order_key order))
      else set_add (processed_orders self) (order_key order))"
proof -
  let ?added = "set_add (processed_orders self) (order_key order)"
  from assms have a: "distinct ?added" "set ?added = insert (order_key order) (set (processed_orders self))"
    by (simp_all add: set_add_ok_def)
  then have "card (set ?added) = Suc (card (set (processed_orders self)))"
    using assms(3) by simp
  then have len: "length ?added = Suc (length (processed_orders self))"
    using a(1) assms(2) by (simp add: distinct_card)
  show ?thesis
    using assms(3) len filter_not_take [OF a(1), of 5000]
    by (auto simp add: handle_order_def Let_def)
qed

lemma handle_order_invariant:
  assumes "set_add_ok set_add" and "distinct (processed_orders self)"
    and "length (processed_orders self) \<le> 10000"
  shows "distinct (processed_orders (fst (handle_order set_add self order))) \<and>
         length (processed_orders (fst (handle_order set_add self order))) \<le> 10000"
proof (cases "order_key order \<in> set (processed_orders self)")
  case True
  with assms show ?thesis by (simp add: handle_order_seen)
next
  case False
  let ?added = "set_add (processed_orders self) (order_key order)"
  from assms False have a: "distinct ?added"
    "set ?added = insert (order_key order) (set (processed_orders self))"
    by (simp_all add: set_add_ok_def)
  then have "card (set ?added) = Suc (card (set (processed_orders self)))"
    using False by simp
  then have len: "length ?added = Suc (length (processed_orders self))"
    using a(1) assms(2) by (simp add: distinct_card)
  from handle_order_processed [OF assms(1) assms(2) False] a(1) len assms(3)
  show ?thesis by auto
qed

lemma handle_orders_invariant:
  assumes "set_add_ok set_add"
  shows "distinct (processed_orders self) \<Longrightarrow> length (processed_orders self) \<le> 10000 \<Longrightarrow>
         distinct (processed_orders (fst (handle_orders set_add self orders))) \<and>
         length (processed_orders (fst (handle_orders set_add self orders))) \<le> 10000"
proof (induction orders arbitrary: self)
  case Nil
  then show ?case by simp
next
  case (Cons x xs)
  obtain self1 f where h: "handle_order set_add self x = (self1, f)"
    by (cases "handle_order set_add self x")
  from handle_order_invariant [OF assms Cons.prems, of x] h
  have "distinct (processed_orders self1)" "length (processed_orders self1) \<le> 10000"
    by simp_all
  from Cons.IH [OF this] h show ?case
    by (auto split: prod.splits)
qed

lemma handle_order_below_bound:
  assumes "set_add_ok set_add" and "distinct (processed_orders self)"
    and "order_key order \<notin> set (processed_orders self)"
    and "length (processed_orders self) < 10000"
  shows "set (processed_orders (fst (handle_order set_add self order))) =
         insert (order_key order) (set (processed_orders self))"
  using handle_order_processed [OF assms(1-3)] assms by (simp add: set_add_ok_def)

lemma handle_order_at_bound:
  assumes "set_add_ok set_add" and "distinct (processed_orders self)"
    and "order_key order \<notin> set (processed_orders self)"
    and "length (processed_orders self) = 10000"
  shows "length (processed_orders (fst (handle_order set_add self order))) = 5001 \<and>
         set (processed_orders (fst (handle_order set_add self order))) \<subseteq>
           insert (order_key order) (set (processed_orders self))"
proof -
  let ?added = "set_add (processed_orders self) (order_key order)"
  from assms have a: "distinct ?added"
    "set ?added = insert (order_key order) (set (processed_orders self))"
    by (simp_all add: set_add_ok_def)
  then have "card (set ?added) = Suc (card (set (processed_orders self)))"
    using assms(3) by simp
  then have len: "length ?added = 10001"
    using a(1) assms(2,4) by (simp add: distinct_card)
  have "set (drop 5000 ?added) \<subseteq> set ?added"
    by (rule set_drop_subset)
  with handle_order_processed [OF assms(1-3)] assms(4) len a(2) show ?thesis
    by simp
qed

lemma handle_orders_twice:
  assumes "set_add_ok set_add" and "distinct (processed_orders self)"
    and "length (processed_orders self) < 10000"
    and "order_key order' = order_key order"
  shows "snd (handle_orders set_add self [order, order']) =
     (if order_key order \<in> set (processed_orders self) \<or> \<not> has_callback self then []
      else [order])"
proof (cases "order_key order \<in> set (processed_orders self)")
  case True
  then show ?thesis
    using assms(4) by (simp add: handle_order_seen)
next
  case False
  obtain self1 f where h: "handle_order set_add self order = (self1, f)"
    by (cases "handle_order set_add self order")
  from handle_order_below_bound [OF assms(1,2) False assms(3)] h
  have "order_key order' \<in> set (processed_orders self1)"
    using assms(4) by simp
  then have "handle_order set_add self1 order' = (self1, None)"
    by (rule handle_order_seen)
  moreover from handle_order_new [OF False, of set_add] h
  have "f = (if has_callback self then Some order else None)"
    by simp
  ultimately show ?thesis
    using h False by simp
qed

text \<open>
  C8, as the code has it. The set holds at most 10000 keys before the call, each once.
  An order whose key is in the set is not forwarded and the set stays as it is. An order
  whose key is not in the set is forwarded when a callback is set, and its key is added;
  when that makes 10001 keys, 5000 keys are removed, the first 5000 in the iteration
  order of the set, and 5001 stay. At most 10000 keys are held after the call, and after
  any stream of orders. Of two orders with the same key that arrive one after the other
  while fewer than 10000 keys are held, at most the first is forwarded.
\<close>

theorem handle_order_dedup_bounded:
  assumes "set_add_ok set_add" and "distinct (processed_orders self)"
    and "length (processed_orders self) \<le> 10000"
  shows
    "(order_key order \<in> set (processed_orders self) \<longrightarrow>
        handle_order set_add self order = (self, None)) \<and>
     (order_key order \<notin> set (processed_orders self) \<longrightarrow>
        snd (handle_order set_add self order) = (if has_callback self then Some order else None) \<and>
        (length (processed_orders self) < 10000 \<longrightarrow>
           set (processed_orders (fst (handle_order set_add self order))) =
             insert (order_key order) (set (processed_orders self))) \<and>
        (length (processed_orders self) = 10000 \<longrightarrow>
           processed_orders (fst (handle_order set_add self order)) =
             drop 5000 (set_add (processed_orders self) (order_key order)) \<and>
           length (processed_orders (fst (handle_order set_add self order))) = 5001 \<and>
           set (processed_orders (fst (handle_order set_add self order))) \<subseteq>
             insert (order_key order) (set (processed_orders self)))) \<and>
     length (processed_orders (fst (handle_order set_add self order))) \<le> 10000 \<and>
     length (processed_orders (fst (handle_orders set_add self orders))) \<le> 10000 \<and>
     (length (processed_orders self) < 10000 \<and> order_key order' = order_key order \<longrightarrow>
        snd (handle_orders set_add self [order, order']) =
          (if order_key order \<in> set (processed_orders self) \<or> \<not> has_callback self then []
           else [order]))"
proof -
  have 1: "handle_order set_add self order = (self, None)"
    if "order_key order \<in> set (processed_orders self)"
    using that by (rule handle_order_seen)
  have 2: "snd (handle_order set_add self order) = (if has_callback self then Some order else None)"
    if "order_key order \<notin> set (processed_orders self)"
    using that by (rule handle_order_new)
  have 3: "set (processed_orders (fst (handle_order set_add self order))) =
      insert (order_key order) (set (processed_orders self))"
    if "order_key order \<notin> set (processed_orders self)" "length (processed_orders self) < 10000"
    using handle_order_below_bound [OF assms(1,2) that] .
  have 4: "processed_orders (fst (handle_order set_add self order)) =
        drop 5000 (set_add (processed_orders self) (order_key order)) \<and>
      length (processed_orders (fst (handle_order set_add self order))) = 5001 \<and>
      set (processed_orders (fst (handle_order set_add self order))) \<subseteq>
        insert (order_key order) (set (processed_orders self))"
    if "order_key order \<notin> set (processed_orders self)" "length (processed_orders self) = 10000"
    using handle_order_at_bound [OF assms(1,2) that] handle_order_processed [OF assms(1,2) that(1)]
      that(2) by simp
  have 5: "length (processed_orders (fst (handle_order set_add self order))) \<le> 10000"
    using handle_order_invariant [OF assms] by simp
  have 6: "length (processed_orders (fst (handle_orders set_add self orders))) \<le> 10000"
    using handle_orders_invariant [OF assms] by simp
  have 7: "snd (handle_orders set_add self [order, order']) =
      (if order_key order \<in> set (processed_orders self) \<or> \<not> has_callback self then []
       else [order])"
    if "length (processed_orders self) < 10000" "order_key order' = order_key order"
    using handle_orders_twice [OF assms(1,2) that] .
  from 1 2 3 4 5 6 7 show ?thesis
    by blast
qed

theorem handle_order_dedup_bounded_witness:
  "set_add_ok add_first \<and> distinct (processed_orders monitor_empty) \<and>
   length (processed_orders monitor_empty) \<le> 10000 \<and>
   order_key order_1 \<notin> set (processed_orders monitor_empty) \<and>
   length (processed_orders monitor_empty) < 10000 \<and>
   snd (handle_order add_first monitor_empty order_1) = Some order_1 \<and>
   set (processed_orders (fst (handle_order add_first monitor_empty order_1))) =
     {ascii ''-1001234567890_42''} \<and>
   snd (handle_orders add_first monitor_empty [order_1, order_1]) = [order_1]"
proof -
  have h: "set_add_ok add_first" "distinct (processed_orders monitor_empty)"
    "length (processed_orders monitor_empty) \<le> 10000"
    by (simp_all add: add_first_ok monitor_empty_def)
  have n: "order_key order_1 \<notin> set (processed_orders monitor_empty)"
    "length (processed_orders monitor_empty) < 10000" "has_callback monitor_empty"
    "set (processed_orders monitor_empty) = {}"
    by (simp_all add: monitor_empty_def)
  from handle_order_dedup_bounded [OF h, of order_1 "[]" order_1] n
  have "snd (handle_order add_first monitor_empty order_1) = Some order_1 \<and>
      set (processed_orders (fst (handle_order add_first monitor_empty order_1))) =
        {order_key order_1} \<and>
      snd (handle_orders add_first monitor_empty [order_1, order_1]) = [order_1]"
    by simp
  with h n show ?thesis
    by (simp add: order_key_order_1)
qed

lemma digits_of_small: "n < 10 \<Longrightarrow> digits_of n = [48 + n]"
  by (subst digits_of.simps) simp

lemma digits_of_large: "\<not> n < 10 \<Longrightarrow> digits_of n = digits_of (n div 10) @ [48 + n mod 10]"
  by (subst digits_of.simps) simp

lemma digits_of_value: "foldl (\<lambda>a c. 10 * a + (c - 48)) 0 (digits_of n) = n"
proof (induction n rule: digits_of.induct)
  case (1 n)
  show ?case
  proof (cases "n < 10")
    case True
    then show ?thesis
      by (simp add: digits_of_small)
  next
    case False
    then have ih: "foldl (\<lambda>a c. 10 * a + (c - 48)) 0 (digits_of (n div 10)) = n div 10"
      by (rule 1)
    have "foldl (\<lambda>a c. 10 * a + (c - 48)) 0 (digits_of n) = 10 * (n div 10) + n mod 10"
      by (simp only: digits_of_large [OF False] foldl_append foldl.simps ih add_diff_cancel_left')
    then show ?thesis
      by simp
  qed
qed

lemma digits_of_inj: "digits_of a = digits_of b \<Longrightarrow> a = b"
  by (metis digits_of_value)

lemma monitor_full_keys:
  "distinct (processed_orders monitor_full)" "length (processed_orders monitor_full) = 10000"
  "order_key order_1 \<notin> set (processed_orders monitor_full)"
proof -
  have "inj_on (\<lambda>i. ascii ''x_'' @ digits_of i) (set (rev [0..<10000]))"
    by (rule inj_onI) (simp add: digits_of_inj del: upt_rec_numeral)
  then show "distinct (processed_orders monitor_full)"
    by (simp add: monitor_full_def distinct_map del: upt_rec_numeral)
  show "length (processed_orders monitor_full) = 10000"
    by (simp add: monitor_full_def del: upt_rec_numeral)
  have "ascii ''-1001234567890_42'' \<noteq> ascii ''x_'' @ digits_of i" for i
    by (simp add: ascii_def)
  then show "order_key order_1 \<notin> set (processed_orders monitor_full)"
    by (auto simp add: monitor_full_def order_key_order_1 simp del: upt_rec_numeral)
qed

text \<open>
  The keys removed need not be the oldest. With a placement that lists a new key first,
  the key added to a set of 10000 keys is itself among the 5000 removed at once, while
  5001 keys that were there before stay; the same message seen a second time is then
  forwarded a second time.
\<close>

theorem eviction_not_oldest_counterexample:
  "set_add_ok add_first \<and> distinct (processed_orders monitor_full) \<and>
   length (processed_orders monitor_full) = 10000 \<and>
   order_key order_1 \<notin> set (processed_orders monitor_full) \<and>
   snd (handle_order add_first monitor_full order_1) = Some order_1 \<and>
   length (processed_orders (fst (handle_order add_first monitor_full order_1))) = 5001 \<and>
   set (processed_orders (fst (handle_order add_first monitor_full order_1))) \<subseteq>
     set (processed_orders monitor_full) \<and>
   order_key order_1 \<notin> set (processed_orders (fst (handle_order add_first monitor_full order_1))) \<and>
   snd (handle_orders add_first monitor_full [order_1, order_1]) = [order_1, order_1]"
proof -
  note k = monitor_full_keys
  have cb: "has_callback monitor_full"
    by (simp add: monitor_full_def)
  have p: "processed_orders (fst (handle_order add_first monitor_full order_1)) =
      drop 4999 (processed_orders monitor_full)"
    using handle_order_processed [OF add_first_ok k(1) k(3)] k(2)
    by (simp add: add_first_def)
  have sub: "set (drop 4999 (processed_orders monitor_full)) \<subseteq> set (processed_orders monitor_full)"
    by (rule set_drop_subset)
  with k(3) p have gone:
    "order_key order_1 \<notin> set (processed_orders (fst (handle_order add_first monitor_full order_1)))"
    by auto
  have f1: "snd (handle_order add_first monitor_full order_1) = Some order_1"
    using handle_order_new [OF k(3), of add_first] cb by simp
  obtain self1 where s1: "handle_order add_first monitor_full order_1 = (self1, Some order_1)"
    using f1 by (cases "handle_order add_first monitor_full order_1") simp
  with gone have "order_key order_1 \<notin> set (processed_orders self1)"
    by simp
  from handle_order_new [OF this, of add_first] s1
  have cb1: "snd (handle_order add_first self1 order_1) = (if has_callback self1 then Some order_1 else None)"
    by simp
  have "has_callback self1"
    using s1 cb k(3) by (auto simp add: handle_order_def Let_def)
  with cb1 have "\<exists>self2. handle_order add_first self1 order_1 = (self2, Some order_1)"
    by (cases "handle_order add_first self1 order_1") simp
  then obtain self2 where s2: "handle_order add_first self1 order_1 = (self2, Some order_1)"
    by blast
  have twice: "snd (handle_orders add_first monitor_full [order_1, order_1]) = [order_1, order_1]"
    by (simp add: s1 s2)
  have len: "length (processed_orders (fst (handle_order add_first monitor_full order_1))) = 5001"
    using p k(2) by simp
  from add_first_ok k f1 len p sub gone twice show ?thesis
    by simp
qed

end
